theory Spec2Isabelle
  imports Complex_Main
begin

section \<open>JavaScript numbers\<close>

text \<open>
  The calendar of \<^verbatim>\<open>LeadManagement.tsx\<close> (component \<^verbatim>\<open>Calendar\<close>) computes with
  JavaScript numbers and \<^verbatim>\<open>Date\<close> objects. A number is an IEEE 754 double: \<open>double x\<close>
  is the number nearest to the real \<open>x\<close> among those with a significand of 53 bits, a tie
  going to the even significand. Every arithmetic operator of the code delivers the
  double of the exact result (\<open>js_add\<close>, \<open>js_sub\<close>, \<open>js_mul\<close>, \<open>js_div\<close>). The range of
  the exponent is not bounded here: overflow to \<^verbatim>\<open>Infinity\<close>, subnormal numbers and
  \<^verbatim>\<open>NaN\<close> are not modelled.

  Pointer coordinates and the sides of rectangles are reals (the doubles are among them).
  Minute counts and lane indices, which the code only ever produces through
  \<^verbatim>\<open>Math.round\<close>, \<^verbatim>\<open>Math.floor\<close> and arithmetic on integers, are integers; products and
  sums of integers are taken exactly, as doubles give them below \<open>2 ^ 53\<close>.

  \<^verbatim>\<open>Math.round\<close> rounds to the nearest integer, a half towards plus infinity, and
  \<^verbatim>\<open>Math.floor\<close> rounds down; both are exact. The operator \<^verbatim>\<open>%\<close> takes the sign of the
  dividend and is exact too.
\<close>

definition roundTiesToEven :: "real \<Rightarrow> int" where
  "roundTiesToEven r =
    (let f = \<lfloor>r\<rfloor>
     in if r - real_of_int f < 1 / 2 then f
        else if 1 / 2 < r - real_of_int f then f + 1
        else if even f then f else f + 1)"

text \<open>The exponent \<open>e\<close> with \<open>2 ^ e \<le> \<bar>x\<bar> < 2 ^ (e + 1)\<close>.\<close>

definition binade :: "real \<Rightarrow> int" where
  "binade x = \<lfloor>log 2 \<bar>x\<bar>\<rfloor>"

definition double :: "real \<Rightarrow> real" where
  "double x =
    (if x = 0 then 0
     else real_of_int (roundTiesToEven (x / 2 powr real_of_int (binade x - 52)))
            * 2 powr real_of_int (binade x - 52))"

definition js_add :: "real \<Rightarrow> real \<Rightarrow> real" where
  "js_add a b = double (a + b)"

definition js_sub :: "real \<Rightarrow> real \<Rightarrow> real" where
  "js_sub a b = double (a - b)"

definition js_mul :: "real \<Rightarrow> real \<Rightarrow> real" where
  "js_mul a b = double (a * b)"

definition js_div :: "real \<Rightarrow> real \<Rightarrow> real" where
  "js_div a b = double (a / b)"

definition Math_round :: "real \<Rightarrow> int" where
  "Math_round x = \<lfloor>x + 1 / 2\<rfloor>"

definition Math_floor :: "real \<Rightarrow> int" where
  "Math_floor x = \<lfloor>x\<rfloor>"

definition js_rem :: "int \<Rightarrow> int \<Rightarrow> int" where
  "js_rem a b = (if a < 0 then - ((- a) mod \<bar>b\<bar>) else a mod \<bar>b\<bar>)"

section \<open>JavaScript dates\<close>

text \<open>
  A \<^verbatim>\<open>Date\<close> is its time value: milliseconds since the epoch, on the time line of UTC.
  The limit of time values (beyond 8.64e15 ms a date is invalid) is not modelled.

  The methods \<^verbatim>\<open>getHours\<close>, \<^verbatim>\<open>getMinutes\<close>, \<^verbatim>\<open>setHours\<close> and \<^verbatim>\<open>setMinutes\<close> read and
  write the fields of the local wall clock. The time zone of the host gives, as in
  ECMAScript, the offset of local time at an instant (\<^verbatim>\<open>LocalTZA(t, true)\<close>, here
  \<open>utcOffset\<close>) and the offset by which a local time value is read
  (\<^verbatim>\<open>LocalTZA(t, false)\<close>, here \<open>localOffset\<close>). Where the clocks change, an hour of
  wall-clock time lasts more or less than 3600000 ms, or does not exist.

  The abstract operations below are those of ECMAScript (\<^verbatim>\<open>Day\<close>, \<^verbatim>\<open>HourFromTime\<close>,
  \<^verbatim>\<open>MakeTime\<close>, \<^verbatim>\<open>MakeDate\<close>, \<^verbatim>\<open>LocalTime\<close>, \<^verbatim>\<open>UTC\<close>); a setter given a field out of
  range carries over into the neighbouring hour or day.
\<close>

type_synonym Date = int

record TimeZone =
  utcOffset :: "int \<Rightarrow> int"
  localOffset :: "int \<Rightarrow> int"

definition Day :: "int \<Rightarrow> int" where
  "Day t = t div 86400000"

definition HourFromTime :: "int \<Rightarrow> int" where
  "HourFromTime t = (t div 3600000) mod 24"

definition MinFromTime :: "int \<Rightarrow> int" where
  "MinFromTime t = (t div 60000) mod 60"

definition SecFromTime :: "int \<Rightarrow> int" where
  "SecFromTime t = (t div 1000) mod 60"

definition msFromTime :: "int \<Rightarrow> int" where
  "msFromTime t = t mod 1000"

definition MakeTime :: "int \<Rightarrow> int \<Rightarrow> int \<Rightarrow> int \<Rightarrow> int" where
  "MakeTime hour minute sec ms = hour * 3600000 + minute * 60000 + sec * 1000 + ms"

definition MakeDate :: "int \<Rightarrow> int \<Rightarrow> int" where
  "MakeDate day time = day * 86400000 + time"

definition LocalTime :: "TimeZone \<Rightarrow> Date \<Rightarrow> int" where
  "LocalTime z t = t + utcOffset z t"

definition UTC :: "TimeZone \<Rightarrow> int \<Rightarrow> Date" where
  "UTC z t = t - localOffset z t"

definition getHours :: "TimeZone \<Rightarrow> Date \<Rightarrow> int" where
  "getHours z t = HourFromTime (LocalTime z t)"

definition getMinutes :: "TimeZone \<Rightarrow> Date \<Rightarrow> int" where
  "getMinutes z t = MinFromTime (LocalTime z t)"

text \<open>\<^verbatim>\<open>setHours(hour, min, sec, ms)\<close>, \<^verbatim>\<open>setHours(hour)\<close> and \<^verbatim>\<open>setMinutes(min)\<close>.\<close>

definition setHours4 :: "TimeZone \<Rightarrow> Date \<Rightarrow> int \<Rightarrow> int \<Rightarrow> int \<Rightarrow> int \<Rightarrow> Date" where
  "setHours4 z t h m sec ms =
    UTC z (MakeDate (Day (LocalTime z t)) (MakeTime h m sec ms))"

definition setHours :: "TimeZone \<Rightarrow> Date \<Rightarrow> int \<Rightarrow> Date" where
  "setHours z t h =
    (let l = LocalTime z t
     in UTC z (MakeDate (Day l) (MakeTime h (MinFromTime l) (SecFromTime l) (msFromTime l))))"

definition setMinutes :: "TimeZone \<Rightarrow> Date \<Rightarrow> int \<Rightarrow> Date" where
  "setMinutes z t m =
    (let l = LocalTime z t
     in UTC z (MakeDate (Day l) (MakeTime (HourFromTime l) m (SecFromTime l) (msFromTime l))))"

text \<open>
  The local time value of the midnight that begins the local day of an instant, and the
  local time values that the wall clock shows exactly once or twice: those that are read
  back from the instant they are turned into.
\<close>

definition localMidnight :: "TimeZone \<Rightarrow> Date \<Rightarrow> int" where
  "localMidnight z t = MakeDate (Day (LocalTime z t)) 0"


section \<open>Constants and coordinate mapping\<close>

definition MINUTES_IN_DAY :: real where
  "MINUTES_IN_DAY = js_mul 24 60"

definition HOUR_HEIGHT :: real where
  "HOUR_HEIGHT = 60"

definition SNAP_MINUTES :: int where
  "SNAP_MINUTES = 15"

definition BLOCK_WIDTH :: real where
  "BLOCK_WIDTH = 200"

definition COLUMN_GAP :: real where
  "COLUMN_GAP = 10"

definition MAX_COLUMNS :: int where
  "MAX_COLUMNS = 4"

definition TIME_BLOCK_COLORS :: "string list" where
  "TIME_BLOCK_COLORS =
    [''rgba(59, 130, 246, 0.9)'',
     ''rgba(16, 185, 129, 0.9)'',
     ''rgba(245, 158, 11, 0.9)'',
     ''rgba(239, 68, 68, 0.9)'',
     ''rgba(139, 92, 246, 0.9)'']"


definition pixelsToMinutes :: "real \<Rightarrow> int" where
  "pixelsToMinutes pixels =
    Math_round (js_mul (js_div pixels (js_mul 24 HOUR_HEIGHT)) MINUTES_IN_DAY)"

definition snapToGrid :: "int \<Rightarrow> int" where
  "snapToGrid v =
    Math_round (js_div (real_of_int v) (real_of_int SNAP_MINUTES)) * SNAP_MINUTES"

section \<open>Data model\<close>

text \<open>
  The interfaces \<^verbatim>\<open>TimeBlock\<close>, \<^verbatim>\<open>DragState\<close>, \<^verbatim>\<open>TouchPoint\<close> and \<^verbatim>\<open>Mover\<close>.
  Several of them share field names, so the fields of a block, its preparation time and
  a mover carry a prefix. An optional field is an \<open>option\<close>.

  Block objects are only ever replaced by copies, but the array \<^verbatim>\<open>assignedMovers\<close> is
  shared by every shallow copy \<^verbatim>\<open>{ ...b }\<close> of a block and is changed in place by the
  editor (\<^verbatim>\<open>push\<close>, \<^verbatim>\<open>splice\<close>). So the field holds a reference into a store of
  arrays; \<open>alloc\<close> is the creation of a new array (\<^verbatim>\<open>[]\<close>, \<^verbatim>\<open>filter\<close>).
\<close>

type_synonym ref = nat

record Store =
  cells :: "ref \<Rightarrow> string list"
  fresh :: ref

definition alloc :: "Store \<Rightarrow> string list \<Rightarrow> ref \<times> Store" where
  "alloc h xs = (fresh h, \<lparr>cells = (cells h)(fresh h := xs), fresh = Suc (fresh h)\<rparr>)"

record PrepTime =
  pt_start :: Date
  pt_duration :: int

record TimeBlock =
  tb_id :: string
  tb_title :: string
  tb_start :: Date
  tb_end :: Date
  tb_description :: "string option"
  tb_location :: "string option"
  tb_color :: string
  tb_column :: int
  tb_prepTime :: "PrepTime option"
  tb_assignedMovers :: "ref option"

datatype DragType = Move | Resize | Prep

record DragState =
  ds_type :: DragType
  blockId :: string
  initialX :: real
  initialY :: real
  initialColumn :: "int option"
  initialHeight :: "real option"
  initialTop :: "real option"
  initialPrepHeight :: "int option"
  isDragging :: bool
  touchIdentifier :: "int option"

record TouchPoint =
  touch_id :: int
  clientX :: real
  clientY :: real

record Mover =
  mv_id :: string
  mv_name :: string
  mv_color :: string

definition DEFAULT_MOVERS :: "Mover list" where
  "DEFAULT_MOVERS =
    [\<lparr>mv_id = ''1'', mv_name = ''Johnny'', mv_color = ''#FF6B6B''\<rparr>,
     \<lparr>mv_id = ''2'', mv_name = ''Cristiani'', mv_color = ''#4ECDC4''\<rparr>,
     \<lparr>mv_id = ''3'', mv_name = ''Alex'', mv_color = ''#45B7D1''\<rparr>,
     \<lparr>mv_id = ''4'', mv_name = ''Christian'', mv_color = ''#96CEB4''\<rparr>,
     \<lparr>mv_id = ''5'', mv_name = ''Stewart'', mv_color = ''#FFEEAD''\<rparr>,
     \<lparr>mv_id = ''6'', mv_name = ''Manny'', mv_color = ''#D4A5A5''\<rparr>,
     \<lparr>mv_id = ''7'', mv_name = ''Cory'', mv_color = ''#9B89B3''\<rparr>]"

text \<open>
  A mouse event carries its own coordinates, a touch event the list \<^verbatim>\<open>touches\<close>
  (the test \<^verbatim>\<open>'touches' in e\<close> tells them apart).
\<close>

datatype PointerEvent = MouseEvent real real | TouchEvent "TouchPoint list"

text \<open>
  What a handler reads from outside the component's state: the bounding rectangle of
  the grid (\<^verbatim>\<open>gridRef.current\<close>, absent before the grid is mounted), the element of a
  block (\<^verbatim>\<open>blockRefs.current[id]\<close>) with its bounding rectangle and
  \<^verbatim>\<open>offsetHeight\<close>, the clock (\<^verbatim>\<open>Date.now()\<close>, \<^verbatim>\<open>new Date()\<close>), the time zone of the
  host and the identifier drawn with \<^verbatim>\<open>Math.random\<close>.
\<close>

record DOMRect =
  rect_top :: real
  rect_height :: real

record Element =
  boundingClientRect :: DOMRect
  offsetHeight :: real

record Env =
  gridRef :: "DOMRect option"
  blockRefs :: "string \<Rightarrow> Element option"
  now :: int
  timeZone :: TimeZone
  randomId :: string

text \<open>The state of the component \<^verbatim>\<open>Calendar\<close>: its \<^verbatim>\<open>useState\<close> and \<^verbatim>\<open>useRef\<close> cells.\<close>

record Calendar =
  blocks :: "TimeBlock list"
  store :: Store
  currentDate :: Date
  editingBlock :: "TimeBlock option"
  dragState :: "DragState option"
  movers :: "Mover list"
  showRemoveConfirm :: "string option"
  lastTapTime :: int
  mouseDownRef :: bool
  touchStartTimeRef :: int
  touchMoveCountRef :: nat

datatype error = TypeError | InvalidDate

definition initialCalendar :: "Date \<Rightarrow> Calendar" where
  "initialCalendar today =
    \<lparr>blocks = [], store = \<lparr>cells = (\<lambda>_. []), fresh = 0\<rparr>, currentDate = today,
     editingBlock = None, dragState = None, movers = DEFAULT_MOVERS,
     showRemoveConfirm = None, lastTapTime = 0, mouseDownRef = False,
     touchStartTimeRef = 0, touchMoveCountRef = 0\<rparr>"

section \<open>Creation\<close>

definition getTimeFromPosition :: "Env \<Rightarrow> Calendar \<Rightarrow> real \<Rightarrow> Date" where
  "getTimeFromPosition env s y =
    (case gridRef env of
       None \<Rightarrow> now env
     | Some rect \<Rightarrow>
         let relativeY = js_sub y (rect_top rect);
             minutes = snapToGrid (pixelsToMinutes relativeY);
             time = currentDate s
         in setHours4 (timeZone env) time
              (Math_floor (js_div (real_of_int minutes) 60)) (js_rem minutes 60) 0 0)"

text \<open>The test of \<^verbatim>\<open>blocks.some\<close> in \<^verbatim>\<open>findAvailableColumn\<close>.\<close>

definition hasOverlap :: "TimeBlock list \<Rightarrow> Date \<Rightarrow> Date \<Rightarrow> int \<Rightarrow> bool" where
  "hasOverlap bs startTime endTime col =
    list_ex (\<lambda>block. tb_column block = col \<and> startTime < tb_end block \<and> endTime > tb_start block) bs"

text \<open>The \<^verbatim>\<open>for\<close> loop of \<^verbatim>\<open>findAvailableColumn\<close>, from lane \<open>col\<close> on.\<close>

function findAvailableColumn_from :: "TimeBlock list \<Rightarrow> Date \<Rightarrow> Date \<Rightarrow> int \<Rightarrow> int" where
  "findAvailableColumn_from bs startTime endTime col =
    (if col < MAX_COLUMNS
     then (if \<not> hasOverlap bs startTime endTime col then col
           else findAvailableColumn_from bs startTime endTime (col + 1))
     else 0)"
  by pat_completeness auto
termination
  by (relation "measure (\<lambda>(bs, startTime, endTime, col). nat (MAX_COLUMNS - col))") auto

declare findAvailableColumn_from.simps [simp del]

definition findAvailableColumn :: "Calendar \<Rightarrow> Date \<Rightarrow> Date \<Rightarrow> int" where
  "findAvailableColumn s startTime endTime =
    findAvailableColumn_from (blocks s) startTime endTime 0"

text \<open>The object \<^verbatim>\<open>newBlock\<close> that \<^verbatim>\<open>createBlock\<close> builds, given its new array.\<close>

definition newBlock :: "Env \<Rightarrow> Calendar \<Rightarrow> real \<Rightarrow> ref \<Rightarrow> TimeBlock" where
  "newBlock env s clickY movers_ref =
    (let startTime = getTimeFromPosition env s clickY;
         endTime = setHours (timeZone env) startTime (getHours (timeZone env) startTime + 1);
         column = findAvailableColumn s startTime endTime
     in \<lparr>tb_id = randomId env,
         tb_title = ''New Block'',
         tb_start = startTime,
         tb_end = endTime,
         tb_description = None,
         tb_location = None,
         tb_color = TIME_BLOCK_COLORS ! (length (blocks s) mod length TIME_BLOCK_COLORS),
         tb_column = column,
         tb_prepTime = None,
         tb_assignedMovers = Some movers_ref\<rparr>)"

definition createBlock :: "Env \<Rightarrow> real \<Rightarrow> Calendar \<Rightarrow> Calendar \<times> TimeBlock option" where
  "createBlock env clickY s =
    (if (case dragState s of None \<Rightarrow> False | Some d \<Rightarrow> isDragging d) then (s, None)
     else
       let (movers_ref, store') = alloc (store s) [];
           block = newBlock env s clickY movers_ref
       in (s\<lparr>blocks := blocks s @ [block], store := store'\<rparr>, Some block))"

definition deleteBlock :: "string \<Rightarrow> Calendar \<Rightarrow> Calendar" where
  "deleteBlock blockId' s =
    (let s1 = s\<lparr>blocks := filter (\<lambda>b. tb_id b \<noteq> blockId') (blocks s)\<rparr>
     in if (case editingBlock s of None \<Rightarrow> False | Some b \<Rightarrow> tb_id b = blockId')
        then s1\<lparr>editingBlock := None\<rparr> else s1)"

text \<open>
  The expression \<^verbatim>\<open>'touches' in e ? e.touches[0] : e\<close>, as the pair of
  \<^verbatim>\<open>clientX\<close> and \<^verbatim>\<open>clientY\<close>; reading a coordinate of \<^verbatim>\<open>touches[0]\<close> when the
  list is empty throws a TypeError.
\<close>

definition firstPoint :: "PointerEvent \<Rightarrow> (real \<times> real) option" where
  "firstPoint e =
    (case e of
       MouseEvent x y \<Rightarrow> Some (x, y)
     | TouchEvent ts \<Rightarrow> (case ts of [] \<Rightarrow> None | t # _ \<Rightarrow> Some (clientX t, clientY t)))"

definition handleGridInteraction :: "Env \<Rightarrow> PointerEvent \<Rightarrow> Calendar \<Rightarrow> error + Calendar" where
  "handleGridInteraction env e s =
    (if dragState s \<noteq> None \<or> mouseDownRef s then Inr s
     else case firstPoint e of
            None \<Rightarrow> Inl TypeError
          | Some point \<Rightarrow> Inr (fst (createBlock env (snd point) s)))"

section \<open>Drag interactions\<close>

text \<open>
  \<^verbatim>\<open>handleBlockInteractionStart\<close>. The pointer \<^verbatim>\<open>point\<close> is only read when the drag state
  is built, after the test for a double tap.
\<close>

definition handleBlockInteractionStart ::
  "Env \<Rightarrow> PointerEvent \<Rightarrow> TimeBlock \<Rightarrow> DragType \<Rightarrow> Calendar \<Rightarrow> error + Calendar" where
  "handleBlockInteractionStart env e block type s =
    (let s1 = s\<lparr>mouseDownRef := True\<rparr>
     in case blockRefs env (tb_id block) of
          None \<Rightarrow> Inr s1
        | Some element \<Rightarrow>
            if type \<noteq> Prep \<and> now env - lastTapTime s1 < 300
            then Inr (s1\<lparr>editingBlock := Some block\<rparr>)
            else
              (case firstPoint e of
                 None \<Rightarrow> Inl TypeError
               | Some point \<Rightarrow>
                   let s2 = (if type \<noteq> Prep then s1\<lparr>lastTapTime := now env\<rparr> else s1);
                       rect = boundingClientRect element
                   in Inr (s2\<lparr>dragState := Some
                        \<lparr>ds_type = type,
                         blockId = tb_id block,
                         initialX = fst point,
                         initialY = snd point,
                         initialColumn = Some (tb_column block),
                         initialHeight = (if type = Resize then Some (rect_height rect) else None),
                         initialTop = (if type = Move then Some (rect_top rect) else None),
                         initialPrepHeight =
                           (if type = Prep
                            then Some (case tb_prepTime block of None \<Rightarrow> 0 | Some p \<Rightarrow> pt_duration p)
                            else None),
                         isDragging = True,
                         touchIdentifier =
                           (case e of
                              MouseEvent _ _ \<Rightarrow> None
                            | TouchEvent ts \<Rightarrow> (case ts of [] \<Rightarrow> None | t # _ \<Rightarrow> Some (touch_id t)))\<rparr>\<rparr>)))"

definition handleBlockMouseDown ::
  "Env \<Rightarrow> PointerEvent \<Rightarrow> TimeBlock \<Rightarrow> DragType \<Rightarrow> Calendar \<Rightarrow> error + Calendar" where
  "handleBlockMouseDown env e block type s = handleBlockInteractionStart env e block type s"

definition handleBlockTouchStart ::
  "Env \<Rightarrow> PointerEvent \<Rightarrow> TimeBlock \<Rightarrow> DragType \<Rightarrow> Calendar \<Rightarrow> error + Calendar" where
  "handleBlockTouchStart env e block type s =
    handleBlockInteractionStart env e block type
      (s\<lparr>touchStartTimeRef := now env, touchMoveCountRef := 0\<rparr>)"

text \<open>
  The pointer of a move event: the event itself, or the touch whose identifier is the one
  the drag started with (none when the drag was started by the mouse).
\<close>

definition dragPoint :: "PointerEvent \<Rightarrow> DragState \<Rightarrow> (real \<times> real) option" where
  "dragPoint e ds =
    (case e of
       MouseEvent x y \<Rightarrow> Some (x, y)
     | TouchEvent ts \<Rightarrow>
         (case find (\<lambda>t. Some (touch_id t) = touchIdentifier ds) ts of
            None \<Rightarrow> None
          | Some t \<Rightarrow> Some (clientX t, clientY t)))"

text \<open>
  The three callbacks given to \<^verbatim>\<open>prev.map\<close> in \<^verbatim>\<open>handleInteractionMove\<close>, as applied to
  the block whose id is the dragged one.
\<close>

definition moveBlock :: "Date \<Rightarrow> int \<Rightarrow> int \<Rightarrow> TimeBlock \<Rightarrow> TimeBlock" where
  "moveBlock newStartTime duration newColumn b =
    (let newEndTime = newStartTime + duration;
         newPrepTime =
           (case tb_prepTime b of
              None \<Rightarrow> None
            | Some p \<Rightarrow>
                Some \<lparr>pt_start = newStartTime - pt_duration p * 60000,
                      pt_duration = pt_duration p\<rparr>)
     in b\<lparr>tb_start := newStartTime, tb_end := newEndTime, tb_column := newColumn,
          tb_prepTime := newPrepTime\<rparr>)"

definition resizeBlock :: "TimeZone \<Rightarrow> int \<Rightarrow> TimeBlock \<Rightarrow> TimeBlock" where
  "resizeBlock z durationMinutes b =
    (let newEndTime = setMinutes z (tb_start b) (getMinutes z (tb_start b) + durationMinutes)
     in b\<lparr>tb_end := newEndTime\<rparr>)"

definition prepBlock :: "int \<Rightarrow> TimeBlock \<Rightarrow> TimeBlock" where
  "prepBlock newPrepMinutes b =
    (if newPrepMinutes = 0 then b\<lparr>tb_prepTime := None\<rparr>
     else b\<lparr>tb_prepTime := Some
            \<lparr>pt_start = tb_start b - newPrepMinutes * 60000,
             pt_duration = newPrepMinutes\<rparr>\<rparr>)"

definition newColumn :: "DragState \<Rightarrow> real \<Rightarrow> int" where
  "newColumn ds deltaX =
    (let columnWidth = js_add BLOCK_WIDTH COLUMN_GAP;
         columnDelta = Math_round (js_div deltaX columnWidth)
     in max 0 (min (MAX_COLUMNS - 1)
          ((case initialColumn ds of None \<Rightarrow> 0 | Some c \<Rightarrow> c) + columnDelta)))"

definition newTop :: "DragState \<Rightarrow> DOMRect \<Rightarrow> Element \<Rightarrow> real \<Rightarrow> real" where
  "newTop ds gridRect element deltaY =
    max 0 (min (js_sub (js_add (case initialTop ds of None \<Rightarrow> 0 | Some t \<Rightarrow> t) deltaY)
                       (rect_top gridRect))
               (js_sub (rect_height gridRect) (offsetHeight element)))"

definition newPrepMinutes :: "TimeZone \<Rightarrow> TimeBlock \<Rightarrow> real \<Rightarrow> int" where
  "newPrepMinutes z block deltaY =
    (let maxPrepMinutes = getHours z (tb_start block) * 60 + getMinutes z (tb_start block)
     in max 0 (min maxPrepMinutes (snapToGrid (pixelsToMinutes deltaY))))"

text \<open>
  \<^verbatim>\<open>handleInteractionMove\<close>. Every early \<^verbatim>\<open>return\<close> leaves the state as it is. In the
  resize branch \<^verbatim>\<open>dragState.initialHeight!\<close> is read unchecked: were it undefined, the
  new end would be an invalid date (\<^verbatim>\<open>NaN\<close>), which a \<open>Date\<close> of this model cannot
  hold and which is reported as \<open>InvalidDate\<close>.
\<close>

definition handleInteractionMove :: "Env \<Rightarrow> PointerEvent \<Rightarrow> Calendar \<Rightarrow> error + Calendar" where
  "handleInteractionMove env e s =
    (case dragState s of
       None \<Rightarrow> Inr s
     | Some ds \<Rightarrow>
    (case gridRef env of
       None \<Rightarrow> Inr s
     | Some gridRect \<Rightarrow>
    (case dragPoint e ds of
       None \<Rightarrow> Inr s
     | Some point \<Rightarrow>
    (case find (\<lambda>b. tb_id b = blockId ds) (blocks s) of
       None \<Rightarrow> Inr s
     | Some block \<Rightarrow>
    (case blockRefs env (blockId ds) of
       None \<Rightarrow> Inr s
     | Some element \<Rightarrow>
         let s1 = (case e of
                     MouseEvent _ _ \<Rightarrow> s
                   | TouchEvent _ \<Rightarrow> s\<lparr>touchMoveCountRef := Suc (touchMoveCountRef s)\<rparr>);
             deltaY = js_sub (snd point) (initialY ds);
             deltaX = js_sub (fst point) (initialX ds)
         in (case ds_type ds of
               Move \<Rightarrow>
                 let newStartTime =
                       getTimeFromPosition env s
                         (js_add (newTop ds gridRect element deltaY) (rect_top gridRect));
                     duration = tb_end block - tb_start block
                 in Inr (s1\<lparr>blocks :=
                      map (\<lambda>b. if tb_id b = tb_id block
                               then moveBlock newStartTime duration (newColumn ds deltaX) b
                               else b) (blocks s1)\<rparr>)
             | Resize \<Rightarrow>
                 (case initialHeight ds of
                    None \<Rightarrow> Inl InvalidDate
                  | Some h \<Rightarrow>
                      let newHeight = max (real_of_int SNAP_MINUTES) (js_add h deltaY);
                          durationMinutes = snapToGrid (pixelsToMinutes newHeight)
                      in Inr (s1\<lparr>blocks :=
                           map (\<lambda>b. if tb_id b = tb_id block
                                    then resizeBlock (timeZone env) durationMinutes b
                                    else b) (blocks s1)\<rparr>))
             | Prep \<Rightarrow>
                 Inr (s1\<lparr>blocks :=
                   map (\<lambda>b. if tb_id b = tb_id block
                            then prepBlock (newPrepMinutes (timeZone env) block deltaY) b
                            else b)
                       (blocks s1)\<rparr>)))))))"

text \<open>
  \<^verbatim>\<open>handleInteractionEnd\<close>; the timer it starts clears \<^verbatim>\<open>mouseDownRef\<close> 50 ms later,
  which is the step \<open>mouseUpTimeout\<close>.
\<close>

definition handleInteractionEnd :: "Env \<Rightarrow> PointerEvent \<Rightarrow> Calendar \<Rightarrow> Calendar" where
  "handleInteractionEnd env e s =
    (let s1 =
       (case e of
          MouseEvent _ _ \<Rightarrow> s
        | TouchEvent _ \<Rightarrow>
            if touchMoveCountRef s < 3 \<and> now env - touchStartTimeRef s < 300
            then (case find (\<lambda>b. Some (tb_id b) = map_option blockId (dragState s)) (blocks s) of
                    None \<Rightarrow> s
                  | Some block \<Rightarrow> s\<lparr>editingBlock := Some block\<rparr>)
            else s)
     in s1\<lparr>dragState := None\<rparr>)"


section \<open>Movers\<close>

text \<open>
  The \<^verbatim>\<open>prev.map\<close> of \<^verbatim>\<open>removeMover\<close>: every block is copied with a new array, the
  filtered one, or \<^verbatim>\<open>[]\<close> where the block had none.
\<close>

fun removeMover_blocks :: "string \<Rightarrow> TimeBlock list \<Rightarrow> Store \<Rightarrow> TimeBlock list \<times> Store" where
  "removeMover_blocks moverId [] h = ([], h)"
| "removeMover_blocks moverId (block # bs) h =
    (let (r, h1) = alloc h (case tb_assignedMovers block of
                              None \<Rightarrow> []
                            | Some a \<Rightarrow> filter (\<lambda>i. i \<noteq> moverId) (cells h a));
         (bs', h2) = removeMover_blocks moverId bs h1
     in (block\<lparr>tb_assignedMovers := Some r\<rparr> # bs', h2))"

definition removeMover :: "string \<Rightarrow> Calendar \<Rightarrow> Calendar" where
  "removeMover moverId s =
    (let (bs', h') = removeMover_blocks moverId (blocks s) (store s)
     in s\<lparr>movers := filter (\<lambda>m. mv_id m \<noteq> moverId) (movers s),
          blocks := bs', store := h', showRemoveConfirm := None\<rparr>)"

section \<open>The block editor\<close>

text \<open>
  The component \<^verbatim>\<open>BlockEditor\<close> is mounted with the block being edited and keeps the
  draft \<^verbatim>\<open>formState\<close>, which starts as that very block (\<^verbatim>\<open>useState(block)\<close>). The three
  inputs of the form are named \<^verbatim>\<open>title\<close>, \<^verbatim>\<open>location\<close> and \<^verbatim>\<open>description\<close>.
\<close>

record BlockEditor =
  ed_block :: TimeBlock
  formState :: TimeBlock

definition mountBlockEditor :: "TimeBlock \<Rightarrow> BlockEditor" where
  "mountBlockEditor block = \<lparr>ed_block = block, formState = block\<rparr>"

datatype FormField = Title | Location | Description

definition handleInputChange :: "FormField \<Rightarrow> string \<Rightarrow> BlockEditor \<Rightarrow> BlockEditor" where
  "handleInputChange name val ed =
    ed\<lparr>formState :=
      (case name of
         Title \<Rightarrow> (formState ed)\<lparr>tb_title := val\<rparr>
       | Location \<Rightarrow> (formState ed)\<lparr>tb_location := Some val\<rparr>
       | Description \<Rightarrow> (formState ed)\<lparr>tb_description := Some val\<rparr>)\<rparr>"

definition handleClose :: "bool \<Rightarrow> BlockEditor \<Rightarrow> Calendar \<Rightarrow> Calendar" where
  "handleClose save ed s =
    (let s1 = (if save
               then s\<lparr>blocks := map (\<lambda>b. if tb_id b = tb_id (ed_block ed) then formState ed else b)
                                    (blocks s)\<rparr>
               else s)
     in s1\<lparr>editingBlock := None\<rparr>)"

text \<open>\<^verbatim>\<open>indexOf\<close> and \<^verbatim>\<open>splice(index, 1)\<close> of arrays.\<close>

fun indexOf :: "'a list \<Rightarrow> 'a \<Rightarrow> int" where
  "indexOf [] x = - 1"
| "indexOf (y # ys) x =
    (if y = x then 0 else (let i = indexOf ys x in if i = - 1 then - 1 else i + 1))"

definition splice1 :: "'a list \<Rightarrow> int \<Rightarrow> 'a list" where
  "splice1 xs i = take (nat i) xs @ drop (nat i + 1) xs"

text \<open>
  \<^verbatim>\<open>toggleMover\<close> takes the array of the draft itself (a new one only where the draft
  has none), changes it in place and stores the same reference in the new draft.
\<close>

definition toggleMover :: "string \<Rightarrow> BlockEditor \<times> Calendar \<Rightarrow> BlockEditor \<times> Calendar" where
  "toggleMover moverId es =
    (let ed = fst es; s = snd es;
         (newAssignedMovers, h1) =
           (case tb_assignedMovers (formState ed) of
              None \<Rightarrow> alloc (store s) []
            | Some r \<Rightarrow> (r, store s));
         index = indexOf (cells h1 newAssignedMovers) moverId;
         h2 = (if index = - 1
               then h1\<lparr>cells := (cells h1)(newAssignedMovers :=
                         cells h1 newAssignedMovers @ [moverId])\<rparr>
               else h1\<lparr>cells := (cells h1)(newAssignedMovers :=
                         splice1 (cells h1 newAssignedMovers) index)\<rparr>)
     in (ed\<lparr>formState := (formState ed)\<lparr>tb_assignedMovers := Some newAssignedMovers\<rparr>\<rparr>,
         s\<lparr>store := h2\<rparr>))"

text \<open>The buttons of the form: "Done", the closing cross, and "Delete".\<close>

definition doneButton :: "BlockEditor \<Rightarrow> Calendar \<Rightarrow> Calendar" where
  "doneButton ed s = handleClose True ed s"

definition cancelButton :: "BlockEditor \<Rightarrow> Calendar \<Rightarrow> Calendar" where
  "cancelButton ed s = handleClose False ed s"

definition deleteButton :: "BlockEditor \<Rightarrow> Calendar \<Rightarrow> Calendar" where
  "deleteButton ed s = handleClose False ed (deleteBlock (tb_id (ed_block ed)) s)"

text \<open>A sequence of edits of the draft: changes of a field and toggles of a mover.\<close>

datatype DraftEdit = InputChange FormField string | ToggleMover string

fun applyEdits :: "DraftEdit list \<Rightarrow> BlockEditor \<times> Calendar \<Rightarrow> BlockEditor \<times> Calendar" where
  "applyEdits [] es = es"
| "applyEdits (InputChange name val # edits) es =
    applyEdits edits (handleInputChange name val (fst es), snd es)"
| "applyEdits (ToggleMover moverId # edits) es = applyEdits edits (toggleMover moverId es)"

section \<open>Properties of the block set\<close>

text \<open>
  Two blocks overlap when their intervals \<open>[start, end)\<close> meet; this is the test of
  \<^verbatim>\<open>findAvailableColumn\<close>. A block set keeps its lanes disjoint when no two of its
  blocks in the same column overlap.
\<close>

definition overlaps :: "TimeBlock \<Rightarrow> TimeBlock \<Rightarrow> bool" where
  "overlaps a b = (tb_start a < tb_end b \<and> tb_end a > tb_start b)"

fun lanesDisjoint :: "TimeBlock list \<Rightarrow> bool" where
  "lanesDisjoint [] = True"
| "lanesDisjoint (b # bs) =
    (list_all (\<lambda>c. tb_column c = tb_column b \<longrightarrow> \<not> overlaps b c) bs \<and> lanesDisjoint bs)"

text \<open>
  What a reader of the state sees of a block: its fields and the contents of the array
  its \<^verbatim>\<open>assignedMovers\<close> refers to.
\<close>

definition assigned :: "Store \<Rightarrow> TimeBlock \<Rightarrow> string list option" where
  "assigned h b = map_option (cells h) (tb_assignedMovers b)"

definition blockSet :: "Calendar \<Rightarrow> (TimeBlock \<times> string list option) list" where
  "blockSet s = map (\<lambda>b. (b, assigned (store s) b)) (blocks s)"

text \<open>
  Every reference held by a block points to an array that has been created, and every
  array is free of duplicates.
\<close>

definition refsAllocated :: "Calendar \<Rightarrow> bool" where
  "refsAllocated s =
    list_all (\<lambda>b. case tb_assignedMovers b of None \<Rightarrow> True | Some r \<Rightarrow> r < fresh (store s))
      (blocks s)"

text \<open>
  The movers of the draft of the editor, as the form shows them
  (\<^verbatim>\<open>formState.assignedMovers?.includes\<close>).
\<close>

definition draftMovers :: "BlockEditor \<times> Calendar \<Rightarrow> string list" where
  "draftMovers es =
    (case tb_assignedMovers (formState (fst es)) of
       None \<Rightarrow> []
     | Some r \<Rightarrow> cells (store (snd es)) r)"

text \<open>
  A drag state of type resize carries the height it started with, as every drag state
  built by \<^verbatim>\<open>handleBlockInteractionStart\<close> does.
\<close>

definition dragStateOk :: "Calendar \<Rightarrow> bool" where
  "dragStateOk s =
    (case dragState s of
       None \<Rightarrow> True
     | Some ds \<Rightarrow> ds_type ds \<noteq> Resize \<or> initialHeight ds \<noteq> None)"


section \<open>A sample day\<close>

text \<open>
  A grid whose top edge is 73 pixels below the top of the viewport, on a day whose local
  midnight is \<open>20000 * 86400000\<close> in a zone of offset zero, opened at 13:00; the elements
  of two one-hour blocks at 9:00.
\<close>

definition fixedZone :: "int \<Rightarrow> TimeZone" where
  "fixedZone off = \<lparr>utcOffset = (\<lambda>t. off), localOffset = (\<lambda>t. off)\<rparr>"

definition sampleNow :: Date where
  "sampleNow = 20000 * 86400000 + 13 * 3600000"

definition sampleElement :: Element where
  "sampleElement = \<lparr>boundingClientRect = \<lparr>rect_top = 613, rect_height = 60\<rparr>, offsetHeight = 60\<rparr>"

definition sampleEnv :: "string \<Rightarrow> Env" where
  "sampleEnv newId =
    \<lparr>gridRef = Some \<lparr>rect_top = 73, rect_height = 1440\<rparr>,
     blockRefs = (\<lambda>i. if i = ''b1'' \<or> i = ''b2'' then Some sampleElement else None),
     now = sampleNow,
     timeZone = fixedZone 0,
     randomId = newId\<rparr>"

definition nineToTen :: "string \<Rightarrow> string \<Rightarrow> int \<Rightarrow> ref \<Rightarrow> TimeBlock" where
  "nineToTen i c col r =
    \<lparr>tb_id = i, tb_title = ''New Block'', tb_start = 1728032400000, tb_end = 1728036000000,
     tb_description = None, tb_location = None, tb_color = c, tb_column = col,
     tb_prepTime = None, tb_assignedMovers = Some r\<rparr>"

definition sampleOne :: Calendar where
  "sampleOne = fst (createBlock (sampleEnv ''b1'') 613 (initialCalendar sampleNow))"

definition sampleTwo :: Calendar where
  "sampleTwo = fst (createBlock (sampleEnv ''b2'') 613 sampleOne)"



text \<open>
  A press of the mouse at (400, 650) on the second block of \<open>sampleTwo\<close>, starting a
  drag of the given kind, leaves the state \<open>samplePressed\<close>;
  \<open>samplePrepared\<close> is that state when the block has a preparation time of 30 minutes.
\<close>

definition sampleDragState :: "DragType \<Rightarrow> DragState" where
  "sampleDragState type =
    \<lparr>ds_type = type, blockId = ''b2'', initialX = 400, initialY = 650,
     initialColumn = Some 1,
     initialHeight = (if type = Resize then Some 60 else None),
     initialTop = (if type = Move then Some 613 else None),
     initialPrepHeight = (if type = Prep then Some 0 else None),
     isDragging = True, touchIdentifier = None\<rparr>"

definition samplePressed :: "DragType \<Rightarrow> Calendar" where
  "samplePressed type =
    sampleTwo\<lparr>mouseDownRef := True,
              lastTapTime := (if type \<noteq> Prep then sampleNow else lastTapTime sampleTwo),
              dragState := Some (sampleDragState type)\<rparr>"

definition samplePrepared :: "DragType \<Rightarrow> Calendar" where
  "samplePrepared type =
    (samplePressed type)\<lparr>blocks :=
       map (\<lambda>b. if tb_id b = ''b2'' then prepBlock 30 b else b) (blocks sampleTwo)\<rparr>"






text \<open>
  The editor opened on the second block of \<open>sampleTwo\<close>; the state after the movers 1
  and 2 have been toggled in it; and the state after mover 1 has been toggled and the
  editor closed with the cross.
\<close>

definition sampleEditor :: "BlockEditor \<times> Calendar" where
  "sampleEditor = (mountBlockEditor (blocks sampleTwo ! 1), sampleTwo)"

definition sampleAssigned :: "BlockEditor \<times> Calendar" where
  "sampleAssigned = applyEdits [ToggleMover ''1'', ToggleMover ''2''] sampleEditor"

definition sampleCancelled :: Calendar where
  "sampleCancelled =
    (let es = applyEdits [InputChange Title ''Piano'', ToggleMover ''1''] sampleEditor
     in cancelButton (fst es) (snd es))"

section \<open>A day on which the clocks go back\<close>







section \<open>Arithmetic of doubles\<close>

text \<open>
  Rounding to a double changes a number by at most the fraction \<open>1 / 2 ^ 53\<close> of its
  magnitude, keeps its sign, and leaves an integer below \<open>2 ^ 53\<close> times a power of two
  as it is.
\<close>

lemma roundTiesToEven_of_int: "roundTiesToEven (real_of_int n) = n"
  by (simp add: roundTiesToEven_def)

lemma roundTiesToEven_error: "\<bar>real_of_int (roundTiesToEven r) - r\<bar> \<le> 1 / 2"
  unfolding roundTiesToEven_def Let_def by (auto; linarith)

lemma roundTiesToEven_nonneg: "0 \<le> r \<Longrightarrow> 0 \<le> roundTiesToEven r"
  unfolding roundTiesToEven_def Let_def by (auto; linarith)


lemma binade_lower: "x \<noteq> 0 \<Longrightarrow> 2 powr real_of_int (binade x) \<le> \<bar>x\<bar>"
proof -
  assume "x \<noteq> 0"
  then have pos: "0 < \<bar>x\<bar>" by simp
  have "real_of_int (binade x) \<le> log 2 \<bar>x\<bar>" by (simp add: binade_def)
  then have "2 powr real_of_int (binade x) \<le> 2 powr log 2 \<bar>x\<bar>" by (simp add: powr_mono)
  with pos show ?thesis by simp
qed

lemma binade_upper: "x \<noteq> 0 \<Longrightarrow> \<bar>x\<bar> < 2 powr real_of_int (binade x + 1)"
proof -
  assume "x \<noteq> 0"
  then have pos: "0 < \<bar>x\<bar>" by simp
  have "log 2 \<bar>x\<bar> < real_of_int (binade x + 1)" unfolding binade_def by linarith
  then have "2 powr log 2 \<bar>x\<bar> < 2 powr real_of_int (binade x + 1)" by simp
  with pos show ?thesis by simp
qed

lemma double_0: "double 0 = 0"
  by (simp add: double_def)

lemma double_nonneg: "0 \<le> x \<Longrightarrow> 0 \<le> double x"
  by (simp add: double_def roundTiesToEven_nonneg)


lemma double_error: "\<bar>double x - x\<bar> \<le> \<bar>x\<bar> / 2 ^ 53"
proof (cases "x = 0")
  case True then show ?thesis by (simp add: double_0)
next
  case False
  let ?u = "2 powr real_of_int (binade x - 52)"
  have u: "0 < ?u" by simp
  have "double x - x = (real_of_int (roundTiesToEven (x / ?u)) - x / ?u) * ?u"
    using False by (simp add: double_def algebra_simps)
  then have "\<bar>double x - x\<bar> = \<bar>real_of_int (roundTiesToEven (x / ?u)) - x / ?u\<bar> * ?u"
    by (simp add: abs_mult)
  also have "\<dots> \<le> (1 / 2) * ?u"
    using roundTiesToEven_error [of "x / ?u"] by (intro mult_right_mono) simp_all
  also have "\<dots> = 2 powr real_of_int (binade x) / 2 ^ 53"
  proof -
    have "?u = 2 powr (real_of_int (binade x) - 52)" by simp
    also have "\<dots> = 2 powr real_of_int (binade x) / 2 powr 52" by (rule powr_diff)
    also have "(2::real) powr 52 = 2 ^ 52" by (simp add: powr_numeral)
    finally show ?thesis by simp
  qed
  also have "\<dots> \<le> \<bar>x\<bar> / 2 ^ 53"
    using binade_lower [OF False] by (simp add: divide_right_mono)
  finally show ?thesis .
qed

lemma double_exact:
  assumes "\<bar>m\<bar> < 2 ^ 53"
  shows "double (real_of_int m * 2 powr real_of_int k) = real_of_int m * 2 powr real_of_int k"
proof (cases "m = 0")
  case True then show ?thesis by (simp add: double_0)
next
  case False
  define x where "x = real_of_int m * 2 powr real_of_int k"
  define e where "e = binade x"
  define u where "u = 2 powr real_of_int (e - 52)"
  from False have x0: "x \<noteq> 0" by (simp add: x_def)
  have upos: "0 < u" by (simp add: u_def)
  have "2 powr real_of_int e \<le> \<bar>x\<bar>" unfolding e_def using x0 by (rule binade_lower)
  also have "\<bar>x\<bar> = \<bar>real_of_int m\<bar> * 2 powr real_of_int k" by (simp add: x_def abs_mult)
  also have "\<dots> < 2 ^ 53 * 2 powr real_of_int k"
  proof -
    from assms have "real_of_int \<bar>m\<bar> < real_of_int (2 ^ 53)" by (simp only: of_int_less_iff)
    then have "\<bar>real_of_int m\<bar> < 2 ^ 53" by simp
    then show ?thesis by (intro mult_strict_right_mono) simp_all
  qed
  also have "\<dots> = 2 powr real_of_int (53 + k)"
    by (simp add: powr_add powr_numeral)
  finally have "real_of_int e < real_of_int (53 + k)" by simp
  then have le: "e - 52 \<le> k" by linarith
  define j where "j = nat (k - (e - 52))"
  from le have k: "k = (e - 52) + int j" by (simp add: j_def)
  have "2 powr real_of_int k = 2 powr (real_of_int (e - 52) + real j)"
    by (subst k) simp
  also have "\<dots> = u * 2 powr real j" unfolding u_def by (rule powr_add)
  also have "2 powr real j = (2::real) ^ j" by (simp add: powr_realpow)
  finally have split: "2 powr real_of_int k = u * 2 ^ j" .
  have xu: "x = real_of_int (m * 2 ^ j) * u" by (simp add: x_def split)
  then have q: "x / u = real_of_int (m * 2 ^ j)" using upos by simp
  have "double x = real_of_int (roundTiesToEven (x / u)) * u"
    using x0 by (simp add: double_def e_def u_def)
  also have "\<dots> = x" unfolding q roundTiesToEven_of_int using xu by simp
  finally show ?thesis by (simp add: x_def)
qed

lemma double_of_int: "\<bar>n\<bar> < 2 ^ 53 \<Longrightarrow> double (real_of_int n) = real_of_int n"
  using double_exact [of n 0] by simp

lemma double_of_int_div_pow2:
  "\<bar>n\<bar> < 2 ^ 53 \<Longrightarrow> double (real_of_int n / 2 ^ j) = real_of_int n / 2 ^ j"
proof -
  assume a: "\<bar>n\<bar> < 2 ^ 53"
  have "2 powr real_of_int (- int j) = 1 / (2::real) ^ j"
    by (simp add: powr_minus powr_realpow inverse_eq_divide)
  with double_exact [OF a, of "- int j"] show ?thesis by simp
qed

lemma double_numeral: "\<bar>numeral k :: int\<bar> < 2 ^ 53 \<Longrightarrow> double (numeral k) = numeral k"
  using double_of_int [of "numeral k"] by simp

lemma double_neg_numeral:
  "\<bar>numeral k :: int\<bar> < 2 ^ 53 \<Longrightarrow> double (- numeral k) = - numeral k"
  using double_of_int [of "- numeral k"] by simp

lemma double_1: "double 1 = 1"
  using double_of_int [of 1] by simp

lemma double_neg_1: "double (- 1) = - 1"
  using double_of_int [of "- 1"] by simp

lemmas js_arith = js_add_def js_sub_def js_mul_def js_div_def double_numeral double_neg_numeral
  double_0 double_1 double_neg_1

section \<open>Arithmetic of the coordinate mapping\<close>

lemma double_numeral_1440: "double 1440 = 1440"
  using double_of_int [of 1440] by simp

lemma day_pixels: "js_mul 24 HOUR_HEIGHT = 1440" "MINUTES_IN_DAY = 1440"
  by (simp_all add: js_mul_def HOUR_HEIGHT_def MINUTES_IN_DAY_def double_numeral_1440)

lemma pixelsToMinutes_unfold:
  "pixelsToMinutes p = Math_round (double (double (p / 1440) * 1440))"
  by (simp only: pixelsToMinutes_def day_pixels) (simp only: js_mul_def js_div_def)


lemma snapToGrid_unfold:
  "snapToGrid v = Math_round (double (real_of_int v / 15)) * 15"
  by (simp add: snapToGrid_def SNAP_MINUTES_def js_div_def)

lemma double_lower: "0 \<le> x \<Longrightarrow> x - x / 2 ^ 53 \<le> double x"
  using double_error [of x] by linarith

lemma double_upper: "0 \<le> x \<Longrightarrow> double x \<le> x + x / 2 ^ 53"
  using double_error [of x] by linarith

lemma double_le_succ: "0 \<le> x \<Longrightarrow> x \<le> 2 ^ 53 \<Longrightarrow> double x \<le> x + 1"
  using double_upper [of x] by simp



lemma Math_round_of_int: "Math_round (real_of_int n) = n"
  unfolding Math_round_def by linarith

lemma Math_round_near: "\<bar>x - real_of_int n\<bar> < 1 / 2 \<Longrightarrow> Math_round x = n"
  unfolding Math_round_def by linarith





lemma snapToGrid_dvd: "SNAP_MINUTES dvd snapToGrid v"
  by (simp add: snapToGrid_def)

text \<open>Bounds of the value that \<^verbatim>\<open>pixelsToMinutes\<close> rounds.\<close>

lemma pixel_value_bounds:
  assumes "0 \<le> p"
  shows "p * (1 - 1 / 2 ^ 53) * (1 - 1 / 2 ^ 53) \<le> double (double (p / 1440) * 1440)"
    and "double (double (p / 1440) * 1440) \<le> p * (1 + 1 / 2 ^ 53) * (1 + 1 / 2 ^ 53)"
proof -
  define a where "a = double (p / 1440)"
  define b where "b = double (a * 1440)"
  from assms have a0: "0 \<le> a" unfolding a_def by (intro double_nonneg) simp
  have al: "p / 1440 - p / 1440 / 2 ^ 53 \<le> a" and au: "a \<le> p / 1440 + p / 1440 / 2 ^ 53"
    unfolding a_def using assms by (intro double_lower double_upper; simp)+
  have bl: "a * 1440 - a * 1440 / 2 ^ 53 \<le> b" and bu: "b \<le> a * 1440 + a * 1440 / 2 ^ 53"
    unfolding b_def using a0 by (intro double_lower double_upper; simp)+
  from al bl show "p * (1 - 1 / 2 ^ 53) * (1 - 1 / 2 ^ 53) \<le> double (double (p / 1440) * 1440)"
    unfolding a_def [symmetric] b_def [symmetric] by (simp add: algebra_simps)
  from au bu show "double (double (p / 1440) * 1440) \<le> p * (1 + 1 / 2 ^ 53) * (1 + 1 / 2 ^ 53)"
    unfolding a_def [symmetric] b_def [symmetric] by (simp add: algebra_simps)
qed

lemma near_bound:
  fixes r b :: real
  assumes "0 \<le> r" and "r < 2 ^ 40"
    and "r * (1 - 1 / 2 ^ 53) * (1 - 1 / 2 ^ 53) \<le> b"
    and "b \<le> r * (1 + 1 / 2 ^ 53) * (1 + 1 / 2 ^ 53)"
  shows "\<bar>b - r\<bar> < 1 / 2"
  using assms unfolding abs_less_iff by (simp add: algebra_simps)


lemma pixelsToMinutes_of_int:
  assumes "0 \<le> n" and "n < 2 ^ 40"
  shows "pixelsToMinutes (real_of_int n) = n"
proof -
  define b where "b = double (double (real_of_int n / 1440) * 1440)"
  from assms(1) have n0: "0 \<le> real_of_int n" by simp
  from assms(2) have n1: "real_of_int n < 2 ^ 40"
    by (metis of_int_less_iff of_int_numeral of_int_power)
  from pixel_value_bounds [OF n0]
  have "real_of_int n * (1 - 1 / 2 ^ 53) * (1 - 1 / 2 ^ 53) \<le> b"
    and "b \<le> real_of_int n * (1 + 1 / 2 ^ 53) * (1 + 1 / 2 ^ 53)"
    unfolding b_def by blast+
  with n0 n1 have "\<bar>b - real_of_int n\<bar> < 1 / 2" by (intro near_bound)
  then show ?thesis
    unfolding pixelsToMinutes_unfold b_def [symmetric] by (rule Math_round_near)
qed



lemma snapToGrid_mult:
  assumes "\<bar>k\<bar> < 2 ^ 53"
  shows "snapToGrid (15 * k) = 15 * k"
proof -
  have "real_of_int (15 * k) / 15 = real_of_int k" by simp
  then show ?thesis
    unfolding snapToGrid_unfold by (simp add: double_of_int [OF assms] Math_round_of_int)
qed








lemma pixelsToMinutes_numeral:
  "(numeral k :: int) < 2 ^ 40 \<Longrightarrow> pixelsToMinutes (numeral k) = numeral k"
  using pixelsToMinutes_of_int [of "numeral k"] by simp

lemma pixelsToMinutes_0: "pixelsToMinutes 0 = 0"
  using pixelsToMinutes_of_int [of 0] by simp

lemma snapToGrid_0: "snapToGrid 0 = 0"
  using snapToGrid_mult [of 0] by simp



lemmas layout_constants =
  HOUR_HEIGHT_def SNAP_MINUTES_def BLOCK_WIDTH_def COLUMN_GAP_def MAX_COLUMNS_def

section \<open>Arithmetic of dates\<close>

lemma local_fields:
  "MakeDate (Day l) (MakeTime (HourFromTime l) (MinFromTime l) (SecFromTime l) (msFromTime l)) = l"
proof -
  have a: "l mod 86400000 = 3600000 * (l div 3600000 mod 24) + l mod 3600000"
    using zmod_zmult2_eq [of 24 l 3600000] by simp
  have b: "l mod 3600000 = 60000 * (l div 60000 mod 60) + l mod 60000"
    using zmod_zmult2_eq [of 60 l 60000] by simp
  have c: "l mod 60000 = 1000 * (l div 1000 mod 60) + l mod 1000"
    using zmod_zmult2_eq [of 60 l 1000] by simp
  have d: "l = l div 86400000 * 86400000 + l mod 86400000" by simp
  have "l div 86400000 * 86400000 +
      (l div 3600000 mod 24 * 3600000 + l div 60000 mod 60 * 60000 + l div 1000 mod 60 * 1000
        + l mod 1000) = l"
    using a b c d by linarith
  then show ?thesis
    by (simp add: MakeDate_def MakeTime_def Day_def HourFromTime_def MinFromTime_def
        SecFromTime_def msFromTime_def)
qed

lemma setHours_succ: "setHours z t (getHours z t + 1) = UTC z (LocalTime z t + 3600000)"
proof -
  let ?l = "LocalTime z t"
  have "MakeDate (Day ?l) (MakeTime (HourFromTime ?l + 1) (MinFromTime ?l) (SecFromTime ?l)
          (msFromTime ?l)) =
        MakeDate (Day ?l) (MakeTime (HourFromTime ?l) (MinFromTime ?l) (SecFromTime ?l)
          (msFromTime ?l)) + 3600000"
    by (simp add: MakeDate_def MakeTime_def algebra_simps)
  then show ?thesis by (simp add: setHours_def getHours_def Let_def local_fields)
qed







lemma getHours_nonneg: "0 \<le> getHours z t"
  by (simp add: getHours_def HourFromTime_def)

lemma getMinutes_nonneg: "0 \<le> getMinutes z t"
  by (simp add: getMinutes_def MinFromTime_def)

lemma fixedZone_simps:
  "LocalTime (fixedZone off) t = t + off" "UTC (fixedZone off) t = t - off"
  by (simp_all add: fixedZone_def LocalTime_def UTC_def)


section \<open>The lane finder and the creation of blocks\<close>

lemma hasOverlap_iff:
  "hasOverlap bs st en col \<longleftrightarrow>
   (\<exists>b\<in>set bs. tb_column b = col \<and> st < tb_end b \<and> en > tb_start b)"
  by (simp add: hasOverlap_def list_ex_iff)


lemma findAvailableColumn_from_hit:
  "col < MAX_COLUMNS \<Longrightarrow> \<not> hasOverlap bs st en col \<Longrightarrow>
   findAvailableColumn_from bs st en col = col"
  by (subst findAvailableColumn_from.simps) simp

lemma findAvailableColumn_from_skip:
  "col < MAX_COLUMNS \<Longrightarrow> hasOverlap bs st en col \<Longrightarrow>
   findAvailableColumn_from bs st en col = findAvailableColumn_from bs st en (col + 1)"
  by (subst findAvailableColumn_from.simps) simp

lemma findAvailableColumn_from_free:
  "col \<le> c \<Longrightarrow> c < MAX_COLUMNS \<Longrightarrow> \<not> hasOverlap bs st en c \<Longrightarrow>
   col \<le> findAvailableColumn_from bs st en col \<and>
   findAvailableColumn_from bs st en col \<le> c \<and>
   \<not> hasOverlap bs st en (findAvailableColumn_from bs st en col) \<and>
   (\<forall>c'. col \<le> c' \<and> c' < findAvailableColumn_from bs st en col \<longrightarrow> hasOverlap bs st en c')"
proof (induction bs st en col rule: findAvailableColumn_from.induct)
  case (1 bs st en col)
  from "1.prems" have small: "col < MAX_COLUMNS" by simp
  show ?case
  proof (cases "hasOverlap bs st en col")
    case False
    with "1.prems" small show ?thesis
      by (auto simp add: findAvailableColumn_from_hit)
  next
    case True
    with "1.prems" have lt: "col < c" by (cases "col = c") auto
    then have le: "col + 1 \<le> c" by simp
    note eq = findAvailableColumn_from_skip [OF small True]
    from "1.IH" [OF small _ le "1.prems"(2,3)] True
    have ih: "col + 1 \<le> findAvailableColumn_from bs st en (col + 1) \<and>
       findAvailableColumn_from bs st en (col + 1) \<le> c \<and>
       \<not> hasOverlap bs st en (findAvailableColumn_from bs st en (col + 1)) \<and>
       (\<forall>c'. col + 1 \<le> c' \<and> c' < findAvailableColumn_from bs st en (col + 1) \<longrightarrow> hasOverlap bs st en c')"
      by simp
    have "hasOverlap bs st en c'"
      if "col \<le> c'" "c' < findAvailableColumn_from bs st en (col + 1)" for c'
    proof (cases "c' = col")
      case True
      with \<open>hasOverlap bs st en col\<close> show ?thesis by simp
    next
      case False
      with that have "col + 1 \<le> c'" by simp
      with ih that show ?thesis by blast
    qed
    with ih show ?thesis unfolding eq by auto
  qed
qed




lemma newBlock_fields:
  "tb_start (newBlock env s y r) = getTimeFromPosition env s y"
  "tb_end (newBlock env s y r) =
     UTC (timeZone env) (LocalTime (timeZone env) (getTimeFromPosition env s y) + 3600000)"
  "tb_column (newBlock env s y r) =
     findAvailableColumn s (getTimeFromPosition env s y)
       (UTC (timeZone env) (LocalTime (timeZone env) (getTimeFromPosition env s y) + 3600000))"
  "tb_color (newBlock env s y r) =
     TIME_BLOCK_COLORS ! (length (blocks s) mod length TIME_BLOCK_COLORS)"
  "tb_prepTime (newBlock env s y r) = None"
  "tb_assignedMovers (newBlock env s y r) = Some r"
  "tb_id (newBlock env s y r) = randomId env"
  by (simp_all add: newBlock_def Let_def setHours_succ)

lemma createBlock_idle:
  "dragState s = None \<Longrightarrow>
   createBlock env y s =
     (s\<lparr>blocks := blocks s @ [newBlock env s y (fresh (store s))],
        store := snd (alloc (store s) [])\<rparr>,
      Some (newBlock env s y (fresh (store s))))"
  by (simp add: createBlock_def alloc_def Let_def)


lemma createBlock_idle_state:
  assumes "dragState s = None"
  shows "blocks (fst (createBlock env y s)) = blocks s @ [newBlock env s y (fresh (store s))]"
    and "currentDate (fst (createBlock env y s)) = currentDate s"
    and "dragState (fst (createBlock env y s)) = None"
    and "mouseDownRef (fst (createBlock env y s)) = mouseDownRef s"
    and "fresh (store (fst (createBlock env y s))) = Suc (fresh (store s))"
    and "cells (store (fst (createBlock env y s))) = (cells (store s))(fresh (store s) := [])"
  using assms by (simp_all add: createBlock_idle alloc_def)

lemma newBlock_eq:
  "newBlock env s y r =
    \<lparr>tb_id = randomId env, tb_title = ''New Block'',
     tb_start = getTimeFromPosition env s y,
     tb_end = UTC (timeZone env) (LocalTime (timeZone env) (getTimeFromPosition env s y) + 3600000),
     tb_description = None, tb_location = None,
     tb_color = TIME_BLOCK_COLORS ! (length (blocks s) mod length TIME_BLOCK_COLORS),
     tb_column = findAvailableColumn s (getTimeFromPosition env s y)
                   (UTC (timeZone env)
                      (LocalTime (timeZone env) (getTimeFromPosition env s y) + 3600000)),
     tb_prepTime = None, tb_assignedMovers = Some r\<rparr>"
  by (simp add: newBlock_def Let_def setHours_succ)

lemma sampleEnv_simps:
  "gridRef (sampleEnv i) = Some \<lparr>rect_top = 73, rect_height = 1440\<rparr>"
  "blockRefs (sampleEnv i) ''b1'' = Some sampleElement"
  "blockRefs (sampleEnv i) ''b2'' = Some sampleElement"
  "now (sampleEnv i) = sampleNow"
  "randomId (sampleEnv i) = i"
  "timeZone (sampleEnv i) = fixedZone 0"
  by (simp_all add: sampleEnv_def)

lemma snapToGrid_540: "snapToGrid (pixelsToMinutes 540) = 540"
  using snapToGrid_mult [of 36] by (simp add: pixelsToMinutes_numeral)

lemma sample_time:
  "currentDate s = sampleNow \<Longrightarrow> getTimeFromPosition (sampleEnv i) s 613 = 1728032400000"
  by (simp add: getTimeFromPosition_def sampleEnv_simps js_arith snapToGrid_540 Math_floor_def
      js_rem_def setHours4_def fixedZone_simps MakeDate_def MakeTime_def Day_def sampleNow_def)

lemmas column_eval =
  findAvailableColumn_def findAvailableColumn_from.simps hasOverlap_def MAX_COLUMNS_def

lemma sampleOne_state:
  "blocks sampleOne = [nineToTen ''b1'' ''rgba(59, 130, 246, 0.9)'' 0 0]"
  "currentDate sampleOne = sampleNow" "dragState sampleOne = None"
  "\<not> mouseDownRef sampleOne" "fresh (store sampleOne) = 1"
  unfolding sampleOne_def
  by (simp_all add: createBlock_idle_state initialCalendar_def newBlock_eq sample_time
      column_eval TIME_BLOCK_COLORS_def nineToTen_def sampleEnv_simps fixedZone_simps)

lemma sampleTwo_state:
  "blocks sampleTwo = [nineToTen ''b1'' ''rgba(59, 130, 246, 0.9)'' 0 0,
                       nineToTen ''b2'' ''rgba(16, 185, 129, 0.9)'' 1 1]"
  "currentDate sampleTwo = sampleNow" "dragState sampleTwo = None"
  "\<not> mouseDownRef sampleTwo" "fresh (store sampleTwo) = 2"
  unfolding sampleTwo_def
  by (simp_all add: createBlock_idle_state sampleOne_state newBlock_eq sample_time
      column_eval TIME_BLOCK_COLORS_def nineToTen_def sampleEnv_simps fixedZone_simps)





lemma find_tb_id:
  "find (\<lambda>b. tb_id b = k) bs = Some b \<Longrightarrow> tb_id b = k"
  by (auto simp add: find_Some_iff)



text \<open>
  A position above the top edge of the grid is not mapped the way a position on the grid
  is: the snapped minutes are negative, \<^verbatim>\<open>Math.floor\<close> rounds the hours down while
  \<^verbatim>\<open>%\<close> keeps the sign of the minutes, and the time is an hour earlier than the snapped
  minutes say. Forty-five pixels above the grid give 105 minutes before midnight.
\<close>

lemma getTimeFromPosition_above_grid:
  assumes "currentDate s = sampleNow"
  shows "snapToGrid (pixelsToMinutes (js_sub 28 73)) = - 45"
    and "getTimeFromPosition (sampleEnv i) s 28 =
           localMidnight (fixedZone 0) sampleNow - 105 * 60000"
proof -
  have y: "js_sub 28 73 = - 45" by (simp add: js_arith)
  have a: "double (- 1 / 32) = - 1 / 32" using double_of_int_div_pow2 [of "- 1" 5] by simp
  have "pixelsToMinutes (- 45) = Math_round (double (double (- 1 / 32) * 1440))"
    by (simp add: pixelsToMinutes_unfold)
  also have "\<dots> = Math_round (double (- 45))" unfolding a by simp
  also have "\<dots> = - 45" by (simp add: double_neg_numeral Math_round_def)
  finally have p: "pixelsToMinutes (- 45) = - 45" .
  have m: "snapToGrid (- 45) = - 45" using snapToGrid_mult [of "- 3"] by simp
  show "snapToGrid (pixelsToMinutes (js_sub 28 73)) = - 45" by (simp only: y p m)
  have b: "double (- 3 / 4) = - 3 / 4" using double_of_int_div_pow2 [of "- 3" 2] by simp
  have "Math_floor (js_div (real_of_int (- 45)) 60) = Math_floor (double (- 3 / 4))"
    by (simp add: js_div_def)
  also have "\<dots> = - 1" unfolding b by (simp add: Math_floor_def)
  finally have f: "Math_floor (js_div (real_of_int (- 45)) 60) = - 1" .
  have "getTimeFromPosition (sampleEnv i) s 28 =
      setHours4 (fixedZone 0) sampleNow (Math_floor (js_div (real_of_int (- 45)) 60))
        (js_rem (- 45) 60) 0 0"
    using assms by (simp add: getTimeFromPosition_def sampleEnv_simps Let_def y p m)
  also have "\<dots> = localMidnight (fixedZone 0) sampleNow - 105 * 60000"
    unfolding f
    by (simp add: setHours4_def localMidnight_def js_rem_def fixedZone_simps MakeDate_def
        MakeTime_def)
  finally show "getTimeFromPosition (sampleEnv i) s 28 =
      localMidnight (fixedZone 0) sampleNow - 105 * 60000" .
qed





section \<open>Drag interactions\<close>

lemma handleInteractionMove_move:
  assumes "dragState s = Some ds" and "gridRef env = Some gridRect"
    and "dragPoint e ds = Some (px, py)"
    and "find (\<lambda>b. tb_id b = blockId ds) (blocks s) = Some block"
    and "blockRefs env (blockId ds) = Some element"
    and "ds_type ds = Move"
  shows "\<exists>s'. handleInteractionMove env e s = Inr s' \<and>
     blocks s' = map (\<lambda>b. if tb_id b = blockId ds
                           then moveBlock
                                  (getTimeFromPosition env s
                                     (js_add (newTop ds gridRect element (js_sub py (initialY ds)))
                                        (rect_top gridRect)))
                                  (tb_end block - tb_start block)
                                  (newColumn ds (js_sub px (initialX ds))) b
                           else b) (blocks s) \<and>
     store s' = store s \<and> dragState s' = dragState s"
  using assms find_tb_id [OF assms(4)]
  by (cases e) (simp_all add: handleInteractionMove_def Let_def)


lemma handleInteractionMove_prep:
  assumes "dragState s = Some ds" and "gridRef env = Some gridRect"
    and "dragPoint e ds = Some (px, py)"
    and "find (\<lambda>b. tb_id b = blockId ds) (blocks s) = Some block"
    and "blockRefs env (blockId ds) = Some element"
    and "ds_type ds = Prep"
  shows "\<exists>s'. handleInteractionMove env e s = Inr s' \<and>
     blocks s' = map (\<lambda>b. if tb_id b = blockId ds
                           then prepBlock
                                  (newPrepMinutes (timeZone env) block (js_sub py (initialY ds))) b
                           else b) (blocks s) \<and>
     store s' = store s \<and> dragState s' = dragState s"
  using assms find_tb_id [OF assms(4)]
  by (cases e) (simp_all add: handleInteractionMove_def Let_def)

lemma newColumn_range: "0 \<le> newColumn ds dx \<and> newColumn ds dx < MAX_COLUMNS"
  by (simp add: newColumn_def Let_def MAX_COLUMNS_def)

lemma newPrepMinutes_range:
  "0 \<le> newPrepMinutes z block dy \<and>
   newPrepMinutes z block dy \<le> getHours z (tb_start block) * 60 + getMinutes z (tb_start block)"
  using getHours_nonneg [of z "tb_start block"] getMinutes_nonneg [of z "tb_start block"]
  by (simp add: newPrepMinutes_def Let_def)

lemma find_exists:
  "i < length bs \<Longrightarrow> P (bs ! i) \<Longrightarrow> \<exists>b. find P bs = Some b"
  by (cases "find P bs") (auto simp add: find_None_iff)

lemma handleInteractionMove_total:
  assumes "dragStateOk s"
  shows "\<exists>s'. handleInteractionMove env e s = Inr s' \<and> dragState s' = dragState s \<and>
              length (blocks s') = length (blocks s)"
proof (cases "dragState s")
  case None
  then show ?thesis by (simp add: handleInteractionMove_def)
next
  case (Some ds)
  with assms have ok: "ds_type ds \<noteq> Resize \<or> initialHeight ds \<noteq> None"
    by (simp add: dragStateOk_def)
  show ?thesis
  proof (cases "ds_type ds")
    case Move
    with Some show ?thesis
      by (cases e) (simp_all add: handleInteractionMove_def Let_def split: option.splits)
  next
    case Resize
    with ok obtain h where "initialHeight ds = Some h" by auto
    with Some Resize show ?thesis
      by (cases e) (simp_all add: handleInteractionMove_def Let_def split: option.splits)
  next
    case Prep
    with Some show ?thesis
      by (cases e) (simp_all add: handleInteractionMove_def Let_def split: option.splits)
  qed
qed

lemma handleBlockInteractionStart_total:
  assumes "dragStateOk s" and "firstPoint e \<noteq> None"
  shows "\<exists>s1. handleBlockInteractionStart env e block type s = Inr s1 \<and> dragStateOk s1"
proof -
  from assms(2) obtain pt where pt: "firstPoint e = Some pt" by auto
  show ?thesis
    using assms(1) pt
    by (cases "blockRefs env (tb_id block)")
       (auto simp add: handleBlockInteractionStart_def Let_def dragStateOk_def
             split: option.splits)
qed

lemma handleInteractionEnd_ok: "dragStateOk (handleInteractionEnd env e s)"
  by (cases e) (simp_all add: handleInteractionEnd_def dragStateOk_def Let_def split: option.splits)

lemma createBlock_lastTapTime:
  "lastTapTime (fst (createBlock env y s)) = lastTapTime s"
  by (simp add: createBlock_def Let_def split_def)

lemma sampleTwo_lastTapTime: "lastTapTime sampleTwo = 0"
  by (simp add: sampleTwo_def sampleOne_def createBlock_lastTapTime initialCalendar_def)

lemma sampleDragState_simps:
  "ds_type (sampleDragState t) = t" "blockId (sampleDragState t) = ''b2''"
  "initialX (sampleDragState t) = 400" "initialY (sampleDragState t) = 650"
  "initialColumn (sampleDragState t) = Some 1"
  "initialHeight (sampleDragState Resize) = Some 60"
  "initialTop (sampleDragState Move) = Some 613"
  "touchIdentifier (sampleDragState t) = None"
  by (simp_all add: sampleDragState_def)

lemma samplePressed_simps:
  "dragState (samplePressed t) = Some (sampleDragState t)"
  "blocks (samplePressed t) = blocks sampleTwo"
  "currentDate (samplePressed t) = sampleNow"
  "store (samplePressed t) = store sampleTwo"
  by (simp_all add: samplePressed_def sampleTwo_state)

lemma samplePrepared_simps:
  "dragState (samplePrepared t) = Some (sampleDragState t)"
  "blocks (samplePrepared t) =
     [nineToTen ''b1'' ''rgba(59, 130, 246, 0.9)'' 0 0,
      (nineToTen ''b2'' ''rgba(16, 185, 129, 0.9)'' 1 1)
        \<lparr>tb_prepTime := Some \<lparr>pt_start = 1728030600000, pt_duration = 30\<rparr>\<rparr>]"
  "currentDate (samplePrepared t) = sampleNow"
  by (simp_all add: samplePrepared_def samplePressed_simps sampleTwo_state prepBlock_def
      nineToTen_def)

lemma samplePressed_reached:
  "handleBlockMouseDown (sampleEnv i) (MouseEvent 400 650) (blocks sampleTwo ! 1) t sampleTwo =
     Inr (samplePressed t)"
  by (cases t)
     (simp_all add: handleBlockMouseDown_def handleBlockInteractionStart_def Let_def
        sampleTwo_state sampleTwo_lastTapTime sampleEnv_simps firstPoint_def nineToTen_def
        sampleNow_def samplePressed_def sampleDragState_def sampleElement_def)

lemma dragPoint_mouse: "dragPoint (MouseEvent x y) ds = Some (x, y)"
  by (simp add: dragPoint_def)


lemma snapToGrid_30: "snapToGrid (pixelsToMinutes 30) = 30"
  using snapToGrid_mult [of 2] by (simp add: pixelsToMinutes_numeral)



text \<open>
  Claim C4. A move drag keeps the duration of the dragged block: its new end minus its
  new start is its end minus its start before the move. If the block has a preparation
  time, the duration of the preparation time is unchanged and the preparation interval
  again ends at the new start of the block; so where it ended at the old start, it has
  been shifted by the same amount as the block. The dragged block is the one that the
  search for the id of the drag state finds.
\<close>

theorem C4_move_keeps_duration:
  assumes "dragState s = Some ds" and "ds_type ds = Move"
    and "gridRef env = Some gridRect" and "dragPoint e ds = Some (px, py)"
    and "blockRefs env (blockId ds) = Some element"
    and "i < length (blocks s)"
    and "find (\<lambda>b. tb_id b = blockId ds) (blocks s) = Some (blocks s ! i)"
  shows "\<exists>s'. handleInteractionMove env e s = Inr s' \<and>
    length (blocks s') = length (blocks s) \<and>
    tb_end (blocks s' ! i) - tb_start (blocks s' ! i)
      = tb_end (blocks s ! i) - tb_start (blocks s ! i) \<and>
    (tb_prepTime (blocks s ! i) = None \<longrightarrow> tb_prepTime (blocks s' ! i) = None) \<and>
    (\<forall>p. tb_prepTime (blocks s ! i) = Some p \<longrightarrow>
       (\<exists>p'. tb_prepTime (blocks s' ! i) = Some p' \<and>
             pt_duration p' = pt_duration p \<and>
             pt_start p' + pt_duration p' * 60000 = tb_start (blocks s' ! i) \<and>
             (pt_start p + pt_duration p * 60000 = tb_start (blocks s ! i) \<longrightarrow>
                pt_start p' - pt_start p
                  = tb_start (blocks s' ! i) - tb_start (blocks s ! i))))"
proof -
  from handleInteractionMove_move [OF assms(1,3,4,7,5,2)]
  obtain s' where run: "handleInteractionMove env e s = Inr s'"
    and bs: "blocks s' = map (\<lambda>b. if tb_id b = blockId ds
                           then moveBlock
                                  (getTimeFromPosition env s
                                     (js_add (newTop ds gridRect element (js_sub py (initialY ds)))
                                        (rect_top gridRect)))
                                  (tb_end (blocks s ! i) - tb_start (blocks s ! i))
                                  (newColumn ds (js_sub px (initialX ds))) b
                           else b) (blocks s)"
    by blast
  have idi: "tb_id (blocks s ! i) = blockId ds" using assms(7) by (rule find_tb_id)
  let ?t = "getTimeFromPosition env s
              (js_add (newTop ds gridRect element (js_sub py (initialY ds))) (rect_top gridRect))"
  have nth: "blocks s' ! i = moveBlock ?t (tb_end (blocks s ! i) - tb_start (blocks s ! i))
                (newColumn ds (js_sub px (initialX ds))) (blocks s ! i)"
    unfolding bs using assms(6) idi by simp
  have len: "length (blocks s') = length (blocks s)" unfolding bs by simp
  have dur: "tb_end (blocks s' ! i) - tb_start (blocks s' ! i)
      = tb_end (blocks s ! i) - tb_start (blocks s ! i)"
    unfolding nth by (simp add: moveBlock_def Let_def)
  have none: "tb_prepTime (blocks s ! i) = None \<longrightarrow> tb_prepTime (blocks s' ! i) = None"
    unfolding nth by (simp add: moveBlock_def Let_def)
  have some: "\<forall>p. tb_prepTime (blocks s ! i) = Some p \<longrightarrow>
       (\<exists>p'. tb_prepTime (blocks s' ! i) = Some p' \<and>
             pt_duration p' = pt_duration p \<and>
             pt_start p' + pt_duration p' * 60000 = tb_start (blocks s' ! i) \<and>
             (pt_start p + pt_duration p * 60000 = tb_start (blocks s ! i) \<longrightarrow>
                pt_start p' - pt_start p
                  = tb_start (blocks s' ! i) - tb_start (blocks s ! i)))"
    unfolding nth by (simp add: moveBlock_def Let_def)
  from run len dur none some show ?thesis by (intro exI [of _ s']) simp
qed

theorem C4_witness:
  "dragState (samplePrepared Move) = Some (sampleDragState Move) \<and>
   ds_type (sampleDragState Move) = Move \<and>
   gridRef (sampleEnv ''x'') = Some \<lparr>rect_top = 73, rect_height = 1440\<rparr> \<and>
   dragPoint (MouseEvent 190 710) (sampleDragState Move) = Some (190, 710) \<and>
   blockRefs (sampleEnv ''x'') (blockId (sampleDragState Move)) = Some sampleElement \<and>
   1 < length (blocks (samplePrepared Move)) \<and>
   find (\<lambda>b. tb_id b = blockId (sampleDragState Move)) (blocks (samplePrepared Move))
     = Some (blocks (samplePrepared Move) ! 1) \<and>
   (\<exists>s'. handleInteractionMove (sampleEnv ''x'') (MouseEvent 190 710) (samplePrepared Move) = Inr s' \<and>
      tb_end (blocks s' ! 1) - tb_start (blocks s' ! 1) = 3600000 \<and>
      (\<exists>p'. tb_prepTime (blocks s' ! 1) = Some p' \<and> pt_duration p' = 30 \<and>
            pt_start p' + 30 * 60000 = tb_start (blocks s' ! 1)))"
proof -
  have h1: "dragState (samplePrepared Move) = Some (sampleDragState Move)"
    by (simp add: samplePrepared_simps)
  have h2: "ds_type (sampleDragState Move) = Move" by (simp add: sampleDragState_simps)
  have h3: "gridRef (sampleEnv ''x'') = Some \<lparr>rect_top = 73, rect_height = 1440\<rparr>"
    by (simp add: sampleEnv_simps)
  have h4: "dragPoint (MouseEvent 190 710) (sampleDragState Move) = Some (190, 710)"
    by (rule dragPoint_mouse)
  have h5: "blockRefs (sampleEnv ''x'') (blockId (sampleDragState Move)) = Some sampleElement"
    by (simp add: sampleDragState_simps sampleEnv_simps)
  have h6: "1 < length (blocks (samplePrepared Move))" by (simp add: samplePrepared_simps)
  have h7: "find (\<lambda>b. tb_id b = blockId (sampleDragState Move)) (blocks (samplePrepared Move))
     = Some (blocks (samplePrepared Move) ! 1)"
    by (simp add: samplePrepared_simps sampleDragState_simps nineToTen_def)
  have prep: "tb_prepTime (blocks (samplePrepared Move) ! 1)
      = Some \<lparr>pt_start = 1728030600000, pt_duration = 30\<rparr>"
    by (simp add: samplePrepared_simps nineToTen_def)
  have dur: "tb_end (blocks (samplePrepared Move) ! 1) - tb_start (blocks (samplePrepared Move) ! 1)
      = 3600000"
    by (simp add: samplePrepared_simps nineToTen_def)
  from C4_move_keeps_duration [OF h1 h2 h3 h4 h5 h6 h7]
  obtain s' where run: "handleInteractionMove (sampleEnv ''x'') (MouseEvent 190 710) (samplePrepared Move) = Inr s'"
    and d: "tb_end (blocks s' ! 1) - tb_start (blocks s' ! 1)
      = tb_end (blocks (samplePrepared Move) ! 1) - tb_start (blocks (samplePrepared Move) ! 1)"
    and p: "\<forall>p. tb_prepTime (blocks (samplePrepared Move) ! 1) = Some p \<longrightarrow>
       (\<exists>p'. tb_prepTime (blocks s' ! 1) = Some p' \<and>
             pt_duration p' = pt_duration p \<and>
             pt_start p' + pt_duration p' * 60000 = tb_start (blocks s' ! 1) \<and>
             (pt_start p + pt_duration p * 60000 = tb_start (blocks (samplePrepared Move) ! 1) \<longrightarrow>
                pt_start p' - pt_start p
                  = tb_start (blocks s' ! 1) - tb_start (blocks (samplePrepared Move) ! 1)))"
    by blast
  from p prep obtain p' where "tb_prepTime (blocks s' ! 1) = Some p'" "pt_duration p' = 30"
    "pt_start p' + pt_duration p' * 60000 = tb_start (blocks s' ! 1)"
    by fastforce
  then have "\<exists>p'. tb_prepTime (blocks s' ! 1) = Some p' \<and> pt_duration p' = 30 \<and>
            pt_start p' + 30 * 60000 = tb_start (blocks s' ! 1)"
    by (intro exI [of _ p']) simp
  with run d dur have "\<exists>s'. handleInteractionMove (sampleEnv ''x'') (MouseEvent 190 710) (samplePrepared Move) = Inr s' \<and>
      tb_end (blocks s' ! 1) - tb_start (blocks s' ! 1) = 3600000 \<and>
      (\<exists>p'. tb_prepTime (blocks s' ! 1) = Some p' \<and> pt_duration p' = 30 \<and>
            pt_start p' + 30 * 60000 = tb_start (blocks s' ! 1))"
    by (intro exI [of _ s']) simp
  with h1 h2 h3 h4 h5 h6 h7 show ?thesis by simp
qed



text \<open>
  Claim C6. After a drag of the preparation handle, the dragged block has no preparation
  time at all when the computed duration is 0; when the computed duration is positive, the
  block has a preparation time of that duration, which ends at the start of the block.
\<close>

theorem C6_prep_drag_sets_or_removes:
  assumes "dragState s = Some ds" and "ds_type ds = Prep"
    and "gridRef env = Some gridRect" and "dragPoint e ds = Some (px, py)"
    and "blockRefs env (blockId ds) = Some element"
    and "i < length (blocks s)"
    and "find (\<lambda>b. tb_id b = blockId ds) (blocks s) = Some (blocks s ! i)"
  shows "\<exists>s'. handleInteractionMove env e s = Inr s' \<and>
    length (blocks s') = length (blocks s) \<and>
    tb_start (blocks s' ! i) = tb_start (blocks s ! i) \<and>
    0 \<le> newPrepMinutes (timeZone env) (blocks s ! i) (js_sub py (initialY ds)) \<and>
    (newPrepMinutes (timeZone env) (blocks s ! i) (js_sub py (initialY ds)) = 0 \<longrightarrow>
       tb_prepTime (blocks s' ! i) = None) \<and>
    (0 < newPrepMinutes (timeZone env) (blocks s ! i) (js_sub py (initialY ds)) \<longrightarrow>
       (\<exists>p. tb_prepTime (blocks s' ! i) = Some p \<and>
            pt_duration p = newPrepMinutes (timeZone env) (blocks s ! i) (js_sub py (initialY ds)) \<and>
            pt_start p + pt_duration p * 60000 = tb_start (blocks s' ! i)))"
proof -
  let ?d = "newPrepMinutes (timeZone env) (blocks s ! i) (js_sub py (initialY ds))"
  from handleInteractionMove_prep [OF assms(1,3,4,7,5,2)]
  obtain s' where run: "handleInteractionMove env e s = Inr s'"
    and bs: "blocks s' = map (\<lambda>b. if tb_id b = blockId ds then prepBlock ?d b else b) (blocks s)"
    by blast
  have idi: "tb_id (blocks s ! i) = blockId ds" using assms(7) by (rule find_tb_id)
  have nth: "blocks s' ! i = prepBlock ?d (blocks s ! i)"
    unfolding bs using assms(6) idi by simp
  have len: "length (blocks s') = length (blocks s)" unfolding bs by simp
  have st: "tb_start (blocks s' ! i) = tb_start (blocks s ! i)"
    unfolding nth by (simp add: prepBlock_def)
  have nonneg: "0 \<le> ?d" using newPrepMinutes_range by blast
  have zero: "?d = 0 \<longrightarrow> tb_prepTime (blocks s' ! i) = None"
    unfolding nth by (simp add: prepBlock_def)
  have pos: "0 < ?d \<longrightarrow>
       (\<exists>p. tb_prepTime (blocks s' ! i) = Some p \<and> pt_duration p = ?d \<and>
            pt_start p + pt_duration p * 60000 = tb_start (blocks s' ! i))"
    unfolding nth by (simp add: prepBlock_def)
  from run len st nonneg zero pos show ?thesis by (intro exI [of _ s']) simp
qed

theorem C6_witness:
  "dragState (samplePressed Prep) = Some (sampleDragState Prep) \<and>
   ds_type (sampleDragState Prep) = Prep \<and>
   gridRef (sampleEnv ''x'') = Some \<lparr>rect_top = 73, rect_height = 1440\<rparr> \<and>
   dragPoint (MouseEvent 400 680) (sampleDragState Prep) = Some (400, 680) \<and>
   blockRefs (sampleEnv ''x'') (blockId (sampleDragState Prep)) = Some sampleElement \<and>
   1 < length (blocks (samplePressed Prep)) \<and>
   find (\<lambda>b. tb_id b = blockId (sampleDragState Prep)) (blocks (samplePressed Prep))
     = Some (blocks (samplePressed Prep) ! 1) \<and>
   (\<exists>s' p. handleInteractionMove (sampleEnv ''x'') (MouseEvent 400 680) (samplePressed Prep) = Inr s' \<and>
      tb_prepTime (blocks s' ! 1) = Some p \<and> pt_duration p = 30 \<and>
      pt_start p + 30 * 60000 = 1728032400000)"
proof -
  have h1: "dragState (samplePressed Prep) = Some (sampleDragState Prep)"
    by (simp add: samplePressed_simps)
  have h2: "ds_type (sampleDragState Prep) = Prep" by (simp add: sampleDragState_simps)
  have h3: "gridRef (sampleEnv ''x'') = Some \<lparr>rect_top = 73, rect_height = 1440\<rparr>"
    by (simp add: sampleEnv_simps)
  have h4: "dragPoint (MouseEvent 400 680) (sampleDragState Prep) = Some (400, 680)"
    by (rule dragPoint_mouse)
  have h5: "blockRefs (sampleEnv ''x'') (blockId (sampleDragState Prep)) = Some sampleElement"
    by (simp add: sampleDragState_simps sampleEnv_simps)
  have h6: "1 < length (blocks (samplePressed Prep))"
    by (simp add: samplePressed_simps sampleTwo_state)
  have h7: "find (\<lambda>b. tb_id b = blockId (sampleDragState Prep)) (blocks (samplePressed Prep))
     = Some (blocks (samplePressed Prep) ! 1)"
    by (simp add: samplePressed_simps sampleTwo_state sampleDragState_simps nineToTen_def)
  have st: "tb_start (blocks (samplePressed Prep) ! 1) = 1728032400000"
    by (simp add: samplePressed_simps sampleTwo_state nineToTen_def)
  have m: "newPrepMinutes (timeZone (sampleEnv ''x'')) (blocks (samplePressed Prep) ! 1) (js_sub 680 (initialY (sampleDragState Prep))) = 30"
    by (simp add: newPrepMinutes_def samplePressed_simps sampleTwo_state nineToTen_def
        sampleDragState_simps sampleEnv_simps js_arith snapToGrid_30 getHours_def getMinutes_def
        HourFromTime_def MinFromTime_def fixedZone_simps)
  from C6_prep_drag_sets_or_removes [OF h1 h2 h3 h4 h5 h6 h7]
  obtain s' where run: "handleInteractionMove (sampleEnv ''x'') (MouseEvent 400 680) (samplePressed Prep) = Inr s'"
    and s: "tb_start (blocks s' ! 1) = tb_start (blocks (samplePressed Prep) ! 1)"
    and pos: "0 < newPrepMinutes (timeZone (sampleEnv ''x'')) (blocks (samplePressed Prep) ! 1) (js_sub 680 (initialY (sampleDragState Prep))) \<longrightarrow>
       (\<exists>p. tb_prepTime (blocks s' ! 1) = Some p \<and>
            pt_duration p = newPrepMinutes (timeZone (sampleEnv ''x'')) (blocks (samplePressed Prep) ! 1) (js_sub 680 (initialY (sampleDragState Prep))) \<and>
            pt_start p + pt_duration p * 60000 = tb_start (blocks s' ! 1))"
    by blast
  from pos m obtain p where "tb_prepTime (blocks s' ! 1) = Some p" "pt_duration p = 30"
    "pt_start p + pt_duration p * 60000 = tb_start (blocks s' ! 1)"
    by auto
  with run s st
  have "\<exists>s' p. handleInteractionMove (sampleEnv ''x'') (MouseEvent 400 680) (samplePressed Prep) = Inr s' \<and>
      tb_prepTime (blocks s' ! 1) = Some p \<and> pt_duration p = 30 \<and>
      pt_start p + 30 * 60000 = 1728032400000"
    by (intro exI [of _ s'] exI [of _ p]) simp
  with h1 h2 h3 h4 h5 h6 h7 show ?thesis by simp
qed

text \<open>
  Claim C7. Whatever the coordinates of the pointer, a drag step clamps and does not fail.
  From a state whose drag state, if it is of type resize, carries its initial height
  (every drag state built by \<^verbatim>\<open>handleBlockInteractionStart\<close> does), the handler of
  a pointer move returns a state with as many blocks as before; after a move the column
  of the dragged block lies in \<open>[0, MAX_COLUMNS)\<close>, and after a drag of the preparation
  handle the duration of its preparation time, if it has one, lies between 0 and the
  minutes since midnight of its start. The start of a drag, on an event that has a
  pointer, and the end of a drag do not fail either and keep that property of the drag
  state.
\<close>

theorem C7_drag_clamps_and_never_fails:
  assumes "dragStateOk s"
  shows "(\<exists>s'. handleInteractionMove env e s = Inr s' \<and> dragStateOk s' \<and>
          length (blocks s') = length (blocks s) \<and>
          (\<forall>ds gridRect pt element i.
             dragState s = Some ds \<and> gridRef env = Some gridRect \<and>
             dragPoint e ds = Some pt \<and> blockRefs env (blockId ds) = Some element \<and>
             i < length (blocks s) \<and> tb_id (blocks s ! i) = blockId ds \<longrightarrow>
             (ds_type ds = Move \<longrightarrow>
                0 \<le> tb_column (blocks s' ! i) \<and> tb_column (blocks s' ! i) < MAX_COLUMNS) \<and>
             (ds_type ds = Prep \<and>
              find (\<lambda>b. tb_id b = blockId ds) (blocks s) = Some (blocks s ! i) \<longrightarrow>
                (case tb_prepTime (blocks s' ! i) of
                   None \<Rightarrow> True
                 | Some p \<Rightarrow>
                     0 \<le> pt_duration p \<and>
                     pt_duration p \<le> getHours (timeZone env) (tb_start (blocks s' ! i)) * 60
                                       + getMinutes (timeZone env) (tb_start (blocks s' ! i)))))) \<and>
         (\<forall>block type. firstPoint e \<noteq> None \<longrightarrow>
            (\<exists>s1. handleBlockInteractionStart env e block type s = Inr s1 \<and> dragStateOk s1)) \<and>
         dragStateOk (handleInteractionEnd env e s)"
proof -
  from handleInteractionMove_total [OF assms]
  obtain s' where run: "handleInteractionMove env e s = Inr s'"
    and ds': "dragState s' = dragState s" and len: "length (blocks s') = length (blocks s)"
    by blast
  have ok': "dragStateOk s'" using assms ds' by (simp add: dragStateOk_def)
  have col: "0 \<le> tb_column (blocks s' ! i) \<and> tb_column (blocks s' ! i) < MAX_COLUMNS"
    if "dragState s = Some ds" "gridRef env = Some gridRect" "dragPoint e ds = Some pt"
       "blockRefs env (blockId ds) = Some element" "i < length (blocks s)"
       "tb_id (blocks s ! i) = blockId ds" "ds_type ds = Move"
    for ds gridRect pt element i
  proof -
    from find_exists [of i "blocks s" "\<lambda>b. tb_id b = blockId ds"] that(5,6)
    obtain block where f: "find (\<lambda>b. tb_id b = blockId ds) (blocks s) = Some block" by blast
    obtain px py where p: "pt = (px, py)" by (cases pt)
    from handleInteractionMove_move [OF that(1,2) that(3) [unfolded p] f that(4,7)] run
    have "blocks s' = map (\<lambda>b. if tb_id b = blockId ds
                           then moveBlock
                                  (getTimeFromPosition env s
                                     (js_add (newTop ds gridRect element (js_sub py (initialY ds)))
                                        (rect_top gridRect)))
                                  (tb_end block - tb_start block)
                                  (newColumn ds (js_sub px (initialX ds))) b
                           else b) (blocks s)"
      by auto
    then have "tb_column (blocks s' ! i) = newColumn ds (js_sub px (initialX ds))"
      using that(5,6) by (simp add: moveBlock_def Let_def)
    then show ?thesis using newColumn_range [of ds "js_sub px (initialX ds)"] by simp
  qed
  have prep: "case tb_prepTime (blocks s' ! i) of
                   None \<Rightarrow> True
                 | Some p \<Rightarrow>
                     0 \<le> pt_duration p \<and>
                     pt_duration p \<le> getHours (timeZone env) (tb_start (blocks s' ! i)) * 60
                                       + getMinutes (timeZone env) (tb_start (blocks s' ! i))"
    if "dragState s = Some ds" "gridRef env = Some gridRect" "dragPoint e ds = Some pt"
       "blockRefs env (blockId ds) = Some element" "i < length (blocks s)"
       "tb_id (blocks s ! i) = blockId ds" "ds_type ds = Prep"
       "find (\<lambda>b. tb_id b = blockId ds) (blocks s) = Some (blocks s ! i)"
    for ds gridRect pt element i
  proof -
    obtain px py where p: "pt = (px, py)" by (cases pt)
    from handleInteractionMove_prep [OF that(1,2) that(3) [unfolded p] that(8) that(4,7)] run
    have "blocks s' = map (\<lambda>b. if tb_id b = blockId ds
                           then prepBlock
                                  (newPrepMinutes (timeZone env) (blocks s ! i)
                                     (js_sub py (initialY ds))) b
                           else b) (blocks s)"
      by auto
    then have nth: "blocks s' ! i =
        prepBlock (newPrepMinutes (timeZone env) (blocks s ! i) (js_sub py (initialY ds)))
          (blocks s ! i)"
      using that(5,6) by simp
    show ?thesis
      unfolding nth
      using newPrepMinutes_range [of "timeZone env" "blocks s ! i" "js_sub py (initialY ds)"]
      by (simp add: prepBlock_def)
  qed
  have start: "\<exists>s1. handleBlockInteractionStart env e block type s = Inr s1 \<and> dragStateOk s1"
    if "firstPoint e \<noteq> None" for block type
    using assms that by (rule handleBlockInteractionStart_total)
  have clamp: "\<forall>ds gridRect pt element i.
             dragState s = Some ds \<and> gridRef env = Some gridRect \<and>
             dragPoint e ds = Some pt \<and> blockRefs env (blockId ds) = Some element \<and>
             i < length (blocks s) \<and> tb_id (blocks s ! i) = blockId ds \<longrightarrow>
             (ds_type ds = Move \<longrightarrow>
                0 \<le> tb_column (blocks s' ! i) \<and> tb_column (blocks s' ! i) < MAX_COLUMNS) \<and>
             (ds_type ds = Prep \<and>
              find (\<lambda>b. tb_id b = blockId ds) (blocks s) = Some (blocks s ! i) \<longrightarrow>
                (case tb_prepTime (blocks s' ! i) of
                   None \<Rightarrow> True
                 | Some p \<Rightarrow>
                     0 \<le> pt_duration p \<and>
                     pt_duration p \<le> getHours (timeZone env) (tb_start (blocks s' ! i)) * 60
                                       + getMinutes (timeZone env) (tb_start (blocks s' ! i))))"
    using col prep by blast
  show ?thesis
  proof (intro conjI)
    show "\<exists>s'. handleInteractionMove env e s = Inr s' \<and> dragStateOk s' \<and>
          length (blocks s') = length (blocks s) \<and>
          (\<forall>ds gridRect pt element i.
             dragState s = Some ds \<and> gridRef env = Some gridRect \<and>
             dragPoint e ds = Some pt \<and> blockRefs env (blockId ds) = Some element \<and>
             i < length (blocks s) \<and> tb_id (blocks s ! i) = blockId ds \<longrightarrow>
             (ds_type ds = Move \<longrightarrow>
                0 \<le> tb_column (blocks s' ! i) \<and> tb_column (blocks s' ! i) < MAX_COLUMNS) \<and>
             (ds_type ds = Prep \<and>
              find (\<lambda>b. tb_id b = blockId ds) (blocks s) = Some (blocks s ! i) \<longrightarrow>
                (case tb_prepTime (blocks s' ! i) of
                   None \<Rightarrow> True
                 | Some p \<Rightarrow>
                     0 \<le> pt_duration p \<and>
                     pt_duration p \<le> getHours (timeZone env) (tb_start (blocks s' ! i)) * 60
                                       + getMinutes (timeZone env) (tb_start (blocks s' ! i)))))"
      using run ok' len clamp by (intro exI [of _ s'] conjI)
    show "\<forall>block type. firstPoint e \<noteq> None \<longrightarrow>
            (\<exists>s1. handleBlockInteractionStart env e block type s = Inr s1 \<and> dragStateOk s1)"
      using start by blast
    show "dragStateOk (handleInteractionEnd env e s)" by (rule handleInteractionEnd_ok)
  qed
qed

theorem C7_witness:
  "dragStateOk (samplePressed Move) \<and>
   (\<exists>s'. handleInteractionMove (sampleEnv ''x'') (MouseEvent 5000 (- 3000)) (samplePressed Move) = Inr s' \<and>
         0 \<le> tb_column (blocks s' ! 1) \<and> tb_column (blocks s' ! 1) < 4)"
proof -
  have h: "dragStateOk (samplePressed Move)"
    by (simp add: dragStateOk_def samplePressed_simps sampleDragState_simps)
  have p: "dragState (samplePressed Move) = Some (sampleDragState Move) \<and>
      gridRef (sampleEnv ''x'') = Some \<lparr>rect_top = 73, rect_height = 1440\<rparr> \<and>
      dragPoint (MouseEvent 5000 (- 3000)) (sampleDragState Move) = Some (5000, - 3000) \<and>
      blockRefs (sampleEnv ''x'') (blockId (sampleDragState Move)) = Some sampleElement \<and>
      1 < length (blocks (samplePressed Move)) \<and>
      tb_id (blocks (samplePressed Move) ! 1) = blockId (sampleDragState Move)"
    by (simp add: samplePressed_simps sampleEnv_simps dragPoint_mouse sampleDragState_simps
        sampleTwo_state nineToTen_def)
  have t: "ds_type (sampleDragState Move) = Move" by (simp add: sampleDragState_simps)
  from C7_drag_clamps_and_never_fails [OF h, of "sampleEnv ''x''" "MouseEvent 5000 (- 3000)"]
  obtain s' where run: "handleInteractionMove (sampleEnv ''x'') (MouseEvent 5000 (- 3000)) (samplePressed Move) = Inr s'"
    and clamp: "\<forall>ds gridRect pt element i.
             dragState (samplePressed Move) = Some ds \<and> gridRef (sampleEnv ''x'') = Some gridRect \<and>
             dragPoint (MouseEvent 5000 (- 3000)) ds = Some pt \<and>
             blockRefs (sampleEnv ''x'') (blockId ds) = Some element \<and>
             i < length (blocks (samplePressed Move)) \<and>
             tb_id (blocks (samplePressed Move) ! i) = blockId ds \<longrightarrow>
             (ds_type ds = Move \<longrightarrow>
                0 \<le> tb_column (blocks s' ! i) \<and> tb_column (blocks s' ! i) < MAX_COLUMNS)"
    by blast
  from clamp p t have "0 \<le> tb_column (blocks s' ! 1) \<and> tb_column (blocks s' ! 1) < MAX_COLUMNS"
    by blast
  with run have "\<exists>s'. handleInteractionMove (sampleEnv ''x'') (MouseEvent 5000 (- 3000)) (samplePressed Move) = Inr s' \<and>
         0 \<le> tb_column (blocks s' ! 1) \<and> tb_column (blocks s' ! 1) < 4"
    by (intro exI [of _ s']) (simp add: MAX_COLUMNS_def)
  with h show ?thesis by simp
qed

section \<open>Clicks that are refused, and hours that do not last sixty minutes\<close>
















section \<open>Movers and the editor\<close>

lemma alloc_simps:
  "fst (alloc h xs) = fresh h"
  "fresh (snd (alloc h xs)) = Suc (fresh h)"
  "cells (snd (alloc h xs)) a = (if a = fresh h then xs else cells h a)"
  by (simp_all add: alloc_def)

lemma removeMover_blocks_props:
  "\<forall>b\<in>set bs. \<forall>a. tb_assignedMovers b = Some a \<longrightarrow> a < fresh h \<Longrightarrow>
   length (fst (removeMover_blocks m bs h)) = length bs \<and>
   fresh (snd (removeMover_blocks m bs h)) = fresh h + length bs \<and>
   (\<forall>a<fresh h. cells (snd (removeMover_blocks m bs h)) a = cells h a) \<and>
   (\<forall>i<length bs.
      fst (removeMover_blocks m bs h) ! i = (bs ! i)\<lparr>tb_assignedMovers := Some (fresh h + i)\<rparr> \<and>
      cells (snd (removeMover_blocks m bs h)) (fresh h + i) =
        (case tb_assignedMovers (bs ! i) of
           None \<Rightarrow> []
         | Some a \<Rightarrow> filter (\<lambda>x. x \<noteq> m) (cells h a)))"
proof (induction bs arbitrary: h)
  case Nil
  then show ?case by simp
next
  case (Cons b bs)
  let ?xs = "case tb_assignedMovers b of None \<Rightarrow> [] | Some a \<Rightarrow> filter (\<lambda>x. x \<noteq> m) (cells h a)"
  let ?h1 = "snd (alloc h ?xs)"
  let ?rest = "removeMover_blocks m bs ?h1"
  have unfold: "removeMover_blocks m (b # bs) h =
      (b\<lparr>tb_assignedMovers := Some (fresh h)\<rparr> # fst ?rest, snd ?rest)"
    by (simp add: alloc_def split_def Let_def)
  have f1: "fresh ?h1 = Suc (fresh h)" by (simp add: alloc_simps)
  have pre: "\<forall>b\<in>set bs. \<forall>a. tb_assignedMovers b = Some a \<longrightarrow> a < fresh ?h1"
    using Cons.prems f1 by auto
  note ih = Cons.IH [OF pre]
  from ih have len: "length (fst ?rest) = length bs" by blast
  from ih f1 have fr: "fresh (snd ?rest) = fresh h + length (b # bs)" by simp
  from ih have keep1: "\<forall>a<fresh ?h1. cells (snd ?rest) a = cells ?h1 a" by blast
  have keep: "\<forall>a<fresh h. cells (snd ?rest) a = cells h a"
    using keep1 f1 by (simp add: alloc_simps)
  have new0: "cells (snd ?rest) (fresh h) = ?xs"
    using keep1 f1 by (simp add: alloc_simps)
  from ih have nth1: "\<forall>i<length bs.
      fst ?rest ! i = (bs ! i)\<lparr>tb_assignedMovers := Some (fresh ?h1 + i)\<rparr> \<and>
      cells (snd ?rest) (fresh ?h1 + i) =
        (case tb_assignedMovers (bs ! i) of
           None \<Rightarrow> []
         | Some a \<Rightarrow> filter (\<lambda>x. x \<noteq> m) (cells ?h1 a))" by blast
  have old: "cells ?h1 a = cells h a" if "tb_assignedMovers (bs ! i) = Some a" "i < length bs" for a i
  proof -
    from that Cons.prems have "a < fresh h" by (metis list.set_intros(2) nth_mem)
    then show ?thesis by (simp add: alloc_simps)
  qed
  have nth: "(b\<lparr>tb_assignedMovers := Some (fresh h)\<rparr> # fst ?rest) ! i
        = ((b # bs) ! i)\<lparr>tb_assignedMovers := Some (fresh h + i)\<rparr> \<and>
      cells (snd ?rest) (fresh h + i) =
        (case tb_assignedMovers ((b # bs) ! i) of
           None \<Rightarrow> []
         | Some a \<Rightarrow> filter (\<lambda>x. x \<noteq> m) (cells h a))"
    if "i < length (b # bs)" for i
  proof (cases i)
    case 0
    then show ?thesis using new0 by simp
  next
    case (Suc j)
    with that have j: "j < length bs" by simp
    from nth1 j f1 have a: "fst ?rest ! j = (bs ! j)\<lparr>tb_assignedMovers := Some (fresh h + Suc j)\<rparr>"
      by simp
    from nth1 j f1 have b: "cells (snd ?rest) (fresh h + Suc j) =
        (case tb_assignedMovers (bs ! j) of
           None \<Rightarrow> []
         | Some a \<Rightarrow> filter (\<lambda>x. x \<noteq> m) (cells ?h1 a))"
      by simp
    have "(case tb_assignedMovers (bs ! j) of
           None \<Rightarrow> []
         | Some a \<Rightarrow> filter (\<lambda>x. x \<noteq> m) (cells ?h1 a)) =
        (case tb_assignedMovers (bs ! j) of
           None \<Rightarrow> []
         | Some a \<Rightarrow> filter (\<lambda>x. x \<noteq> m) (cells h a))"
      using old [OF _ j] by (cases "tb_assignedMovers (bs ! j)") simp_all
    with a b Suc show ?thesis by simp
  qed
  show ?case
    unfolding unfold using len fr keep nth by simp
qed

lemma refsAllocated_iff:
  "refsAllocated s \<longleftrightarrow>
   (\<forall>b\<in>set (blocks s). \<forall>a. tb_assignedMovers b = Some a \<longrightarrow> a < fresh (store s))"
  by (auto simp add: refsAllocated_def list_all_iff split: option.splits)

lemma removeMover_state:
  "blocks (removeMover m s) = fst (removeMover_blocks m (blocks s) (store s))"
  "store (removeMover m s) = snd (removeMover_blocks m (blocks s) (store s))"
  "movers (removeMover m s) = filter (\<lambda>x. mv_id x \<noteq> m) (movers s)"
  by (simp_all add: removeMover_def split_def Let_def)

lemma indexOf_lower: "- 1 \<le> indexOf xs x"
  by (induction xs) (simp_all add: Let_def)

lemma indexOf_absent: "indexOf xs x = - 1 \<longleftrightarrow> x \<notin> set xs"
proof (induction xs)
  case Nil
  then show ?case by simp
next
  case (Cons y ys)
  from indexOf_lower [of ys x] have "indexOf ys x + 1 \<noteq> - 1" by simp
  with Cons show ?case by (simp add: Let_def)
qed

lemma indexOf_nonneg: "x \<in> set xs \<Longrightarrow> 0 \<le> indexOf xs x"
  using indexOf_lower [of xs x] indexOf_absent [of xs x] by (cases "indexOf xs x = - 1") simp_all

lemma splice1_Cons: "0 \<le> i \<Longrightarrow> splice1 (y # ys) (i + 1) = y # splice1 ys i"
  by (simp add: splice1_def nat_add_distrib)

lemma splice1_indexOf: "x \<in> set xs \<Longrightarrow> splice1 xs (indexOf xs x) = remove1 x xs"
proof (induction xs)
  case Nil
  then show ?case by simp
next
  case (Cons y ys)
  show ?case
  proof (cases "y = x")
    case True
    then show ?thesis by (simp add: splice1_def)
  next
    case False
    with Cons.prems have in_ys: "x \<in> set ys" by simp
    then have "indexOf ys x \<noteq> - 1" by (simp add: indexOf_absent)
    with False have "indexOf (y # ys) x = indexOf ys x + 1" by (simp add: Let_def)
    with False in_ys Cons.IH show ?thesis
      by (simp add: splice1_Cons indexOf_nonneg)
  qed
qed

lemma toggleMover_draft:
  "draftMovers (toggleMover m es) =
    (if m \<in> set (draftMovers es) then remove1 m (draftMovers es) else draftMovers es @ [m])"
proof (cases "tb_assignedMovers (formState (fst es))")
  case None
  then show ?thesis
    by (simp add: toggleMover_def draftMovers_def alloc_def Let_def)
next
  case (Some r)
  then show ?thesis
    by (simp add: toggleMover_def draftMovers_def Let_def indexOf_absent splice1_indexOf)
qed

lemma toggleMover_Some:
  assumes "tb_assignedMovers (formState ed) = Some r"
  shows "toggleMover m (ed, s) =
    (ed, s\<lparr>store := (store s)\<lparr>cells := (cells (store s))
             (r := if m \<in> set (cells (store s) r) then remove1 m (cells (store s) r)
                   else cells (store s) r @ [m])\<rparr>\<rparr>)"
proof -
  have ed: "ed\<lparr>formState := (formState ed)\<lparr>tb_assignedMovers := Some r\<rparr>\<rparr> = ed"
    unfolding assms [symmetric] by simp
  show ?thesis
    using assms unfolding toggleMover_def
    by (simp add: Let_def indexOf_absent splice1_indexOf ed)
qed

lemma sampleTwo_cells: "cells (store sampleTwo) r = []"
  by (simp add: sampleTwo_def sampleOne_def createBlock_idle_state sampleOne_state [unfolded sampleOne_def]
      initialCalendar_def)

lemma sampleEditor_simps:
  "snd sampleEditor = sampleTwo"
  "tb_assignedMovers (formState (fst sampleEditor)) = Some 1"
  "draftMovers sampleEditor = []"
  by (simp_all add: sampleEditor_def mountBlockEditor_def sampleTwo_state nineToTen_def
      draftMovers_def sampleTwo_cells)

lemma sampleAssigned_eq:
  "sampleAssigned =
    (fst sampleEditor,
     sampleTwo\<lparr>store := (store sampleTwo)\<lparr>cells := (cells (store sampleTwo))(1 := [''1'', ''2''])\<rparr>\<rparr>)"
proof -
  have a: "sampleEditor = (fst sampleEditor, sampleTwo)"
    by (simp add: sampleEditor_def)
  have "toggleMover ''1'' sampleEditor =
      (fst sampleEditor,
       sampleTwo\<lparr>store := (store sampleTwo)\<lparr>cells := (cells (store sampleTwo))(1 := [''1''])\<rparr>\<rparr>)"
    by (subst a) (simp add: toggleMover_Some [OF sampleEditor_simps(2)] sampleTwo_cells)
  then show ?thesis
    by (simp add: sampleAssigned_def toggleMover_Some [OF sampleEditor_simps(2)])
qed

lemma sampleAssigned_simps:
  "blocks (snd sampleAssigned) = blocks sampleTwo"
  "fresh (store (snd sampleAssigned)) = 2"
  "cells (store (snd sampleAssigned)) r = (if r = Suc 0 then [''1'', ''2''] else [])"
  "movers (snd sampleAssigned) = movers sampleTwo"
  "draftMovers sampleAssigned = [''1'', ''2'']"
  unfolding sampleAssigned_eq
  by (simp_all add: sampleTwo_state sampleTwo_cells draftMovers_def sampleEditor_simps)

lemma sampleTwo_movers: "movers sampleTwo = DEFAULT_MOVERS"
  by (simp add: sampleTwo_def sampleOne_def createBlock_def Let_def split_def initialCalendar_def)

lemma handleClose_state:
  "blocks (handleClose save ed s) =
     (if save then map (\<lambda>b. if tb_id b = tb_id (ed_block ed) then formState ed else b) (blocks s)
      else blocks s)"
  "store (handleClose save ed s) = store s"
  "editingBlock (handleClose save ed s) = None"
  by (simp_all add: handleClose_def Let_def)

text \<open>
  Claim C8. Removing a mover from the roster, in a state where every reference of a block
  points to an array that exists, takes the id of the mover out of the
  \<^verbatim>\<open>assignedMovers\<close> of every block: the movers of a block afterwards are those it had
  before without that id (none where the block had no array), so that no block retains
  the id. Every block is otherwise the block it was: only the reference to its array is
  new, while id, title, description, location, start, end, column, colour and
  preparation time are unchanged. The roster afterwards is the roster before without the
  movers of that id: it holds every mover of another id and none of that id.
\<close>

theorem C8_removeMover_frame:
  assumes "refsAllocated s" and "s' = removeMover moverId s"
  shows "length (blocks s') = length (blocks s) \<and>
    (\<forall>i<length (blocks s).
       (\<exists>r. blocks s' ! i = (blocks s ! i)\<lparr>tb_assignedMovers := Some r\<rparr>) \<and>
       tb_id (blocks s' ! i) = tb_id (blocks s ! i) \<and>
       tb_title (blocks s' ! i) = tb_title (blocks s ! i) \<and>
       tb_description (blocks s' ! i) = tb_description (blocks s ! i) \<and>
       tb_location (blocks s' ! i) = tb_location (blocks s ! i) \<and>
       tb_start (blocks s' ! i) = tb_start (blocks s ! i) \<and>
       tb_end (blocks s' ! i) = tb_end (blocks s ! i) \<and>
       tb_column (blocks s' ! i) = tb_column (blocks s ! i) \<and>
       tb_color (blocks s' ! i) = tb_color (blocks s ! i) \<and>
       tb_prepTime (blocks s' ! i) = tb_prepTime (blocks s ! i) \<and>
       assigned (store s') (blocks s' ! i) =
         Some (filter (\<lambda>x. x \<noteq> moverId)
                 (case assigned (store s) (blocks s ! i) of None \<Rightarrow> [] | Some xs \<Rightarrow> xs))) \<and>
    (\<forall>b\<in>set (blocks s'). \<forall>xs. assigned (store s') b = Some xs \<longrightarrow> moverId \<notin> set xs) \<and>
    movers s' = filter (\<lambda>m. mv_id m \<noteq> moverId) (movers s) \<and>
    (\<forall>m\<in>set (movers s). mv_id m \<noteq> moverId \<longrightarrow> m \<in> set (movers s')) \<and>
    (\<forall>m\<in>set (movers s'). mv_id m \<noteq> moverId)"
proof -
  let ?rm = "removeMover_blocks moverId (blocks s) (store s)"
  from assms(1) have pre: "\<forall>b\<in>set (blocks s). \<forall>a. tb_assignedMovers b = Some a \<longrightarrow> a < fresh (store s)"
    by (simp add: refsAllocated_iff)
  note props = removeMover_blocks_props [OF pre, of moverId]
  have bs: "blocks s' = fst ?rm" and st: "store s' = snd ?rm"
    and mv: "movers s' = filter (\<lambda>m. mv_id m \<noteq> moverId) (movers s)"
    unfolding assms(2) by (simp_all add: removeMover_state)
  from props have len: "length (blocks s') = length (blocks s)" unfolding bs by blast
  have nth: "blocks s' ! i = (blocks s ! i)\<lparr>tb_assignedMovers := Some (fresh (store s) + i)\<rparr>"
    and cell: "cells (store s') (fresh (store s) + i) =
        (case tb_assignedMovers (blocks s ! i) of
           None \<Rightarrow> []
         | Some a \<Rightarrow> filter (\<lambda>x. x \<noteq> moverId) (cells (store s) a))"
    if "i < length (blocks s)" for i
    using props that unfolding bs st by blast+
  have asg: "assigned (store s') (blocks s' ! i) =
         Some (filter (\<lambda>x. x \<noteq> moverId)
                 (case assigned (store s) (blocks s ! i) of None \<Rightarrow> [] | Some xs \<Rightarrow> xs))"
    if "i < length (blocks s)" for i
    using nth [OF that] cell [OF that]
    by (cases "tb_assignedMovers (blocks s ! i)") (simp_all add: assigned_def)
  have gone: "moverId \<notin> set xs" if "b \<in> set (blocks s')" "assigned (store s') b = Some xs" for b xs
  proof -
    from that(1) len obtain i where "i < length (blocks s)" "b = blocks s' ! i"
      by (metis in_set_conv_nth)
    with asg [of i] that(2) show ?thesis by auto
  qed
  have frame: "(\<exists>r. blocks s' ! i = (blocks s ! i)\<lparr>tb_assignedMovers := Some r\<rparr>) \<and>
       tb_id (blocks s' ! i) = tb_id (blocks s ! i) \<and>
       tb_title (blocks s' ! i) = tb_title (blocks s ! i) \<and>
       tb_description (blocks s' ! i) = tb_description (blocks s ! i) \<and>
       tb_location (blocks s' ! i) = tb_location (blocks s ! i) \<and>
       tb_start (blocks s' ! i) = tb_start (blocks s ! i) \<and>
       tb_end (blocks s' ! i) = tb_end (blocks s ! i) \<and>
       tb_column (blocks s' ! i) = tb_column (blocks s ! i) \<and>
       tb_color (blocks s' ! i) = tb_color (blocks s ! i) \<and>
       tb_prepTime (blocks s' ! i) = tb_prepTime (blocks s ! i)"
    if "i < length (blocks s)" for i
    unfolding nth [OF that]
    by (intro conjI exI [of _ "fresh (store s) + i"]) simp_all
  from len frame asg gone mv show ?thesis by simp
qed

theorem C8_witness:
  "refsAllocated (snd sampleAssigned) \<and>
   assigned (store (snd sampleAssigned)) (blocks (snd sampleAssigned) ! 1) = Some [''1'', ''2''] \<and>
   assigned (store (removeMover ''1'' (snd sampleAssigned)))
     (blocks (removeMover ''1'' (snd sampleAssigned)) ! 1) = Some [''2''] \<and>
   tb_start (blocks (removeMover ''1'' (snd sampleAssigned)) ! 1) = 1728032400000 \<and>
   map mv_id (movers (removeMover ''1'' (snd sampleAssigned)))
     = [''2'', ''3'', ''4'', ''5'', ''6'', ''7'']"
proof -
  let ?s = "snd sampleAssigned"
  let ?s' = "removeMover ''1'' ?s"
  have h: "refsAllocated ?s"
    by (simp add: refsAllocated_def sampleAssigned_simps sampleTwo_state nineToTen_def)
  have before: "assigned (store ?s) (blocks ?s ! 1) = Some [''1'', ''2'']"
    by (simp add: assigned_def sampleAssigned_simps sampleTwo_state nineToTen_def)
  have i: "1 < length (blocks ?s)" by (simp add: sampleAssigned_simps sampleTwo_state)
  from C8_removeMover_frame [OF h refl, of "''1''"] i
  have after: "assigned (store ?s') (blocks ?s' ! 1) =
         Some (filter (\<lambda>x. x \<noteq> ''1'')
                 (case assigned (store ?s) (blocks ?s ! 1) of None \<Rightarrow> [] | Some xs \<Rightarrow> xs))"
    and start: "tb_start (blocks ?s' ! 1) = tb_start (blocks ?s ! 1)"
    and roster: "movers ?s' = filter (\<lambda>m. mv_id m \<noteq> ''1'') (movers ?s)"
    by blast+
  from after before have a: "assigned (store ?s') (blocks ?s' ! 1) = Some [''2'']" by simp
  from start have b: "tb_start (blocks ?s' ! 1) = 1728032400000"
    by (simp add: sampleAssigned_simps sampleTwo_state nineToTen_def)
  from roster have c: "map mv_id (movers ?s') = [''2'', ''3'', ''4'', ''5'', ''6'', ''7'']"
    by (simp add: sampleAssigned_simps sampleTwo_movers DEFAULT_MOVERS_def)
  from h before a b c show ?thesis by simp
qed

text \<open>
  Claim C9. In a draft whose movers are free of duplicates, as the movers of every draft
  are that comes from a created block by toggles, toggling the id of a mover adds the id
  when it is absent and removes it when it is present; the membership of every other id
  is unchanged, the movers stay free of duplicates, and toggling the same id twice in a
  row gives back the set of movers the draft had.
\<close>

theorem C9_toggle_flips_membership:
  assumes "distinct (draftMovers es)"
  shows "(m \<notin> set (draftMovers es) \<longrightarrow> m \<in> set (draftMovers (toggleMover m es))) \<and>
    (m \<in> set (draftMovers es) \<longrightarrow> m \<notin> set (draftMovers (toggleMover m es))) \<and>
    (\<forall>x. x \<noteq> m \<longrightarrow>
       (x \<in> set (draftMovers (toggleMover m es)) \<longleftrightarrow> x \<in> set (draftMovers es))) \<and>
    distinct (draftMovers (toggleMover m es)) \<and>
    set (draftMovers (toggleMover m (toggleMover m es))) = set (draftMovers es)"
proof -
  have once: "draftMovers (toggleMover m es) =
      (if m \<in> set (draftMovers es) then remove1 m (draftMovers es) else draftMovers es @ [m])"
    by (rule toggleMover_draft)
  have twice: "draftMovers (toggleMover m (toggleMover m es)) =
      (if m \<in> set (draftMovers (toggleMover m es))
       then remove1 m (draftMovers (toggleMover m es))
       else draftMovers (toggleMover m es) @ [m])"
    by (rule toggleMover_draft)
  have a: "m \<notin> set (draftMovers es) \<longrightarrow> m \<in> set (draftMovers (toggleMover m es))"
    unfolding once by simp
  have b: "m \<in> set (draftMovers es) \<longrightarrow> m \<notin> set (draftMovers (toggleMover m es))"
    unfolding once using assms by simp
  have c: "\<forall>x. x \<noteq> m \<longrightarrow>
       (x \<in> set (draftMovers (toggleMover m es)) \<longleftrightarrow> x \<in> set (draftMovers es))"
    unfolding once using assms by auto
  have d: "distinct (draftMovers (toggleMover m es))"
    unfolding once using assms by simp
  have e: "set (draftMovers (toggleMover m (toggleMover m es))) = set (draftMovers es)"
  proof (cases "m \<in> set (draftMovers es)")
    case True
    with b have "m \<notin> set (draftMovers (toggleMover m es))" by simp
    then have "draftMovers (toggleMover m (toggleMover m es)) = remove1 m (draftMovers es) @ [m]"
      unfolding twice using True by (simp add: once)
    with True assms show ?thesis by auto
  next
    case False
    with a have "m \<in> set (draftMovers (toggleMover m es))" by simp
    then have "draftMovers (toggleMover m (toggleMover m es)) = remove1 m (draftMovers es @ [m])"
      unfolding twice using False by (simp add: once)
    with False show ?thesis by (simp add: remove1_append)
  qed
  from a b c d e show ?thesis by blast
qed

theorem C9_witness:
  "distinct (draftMovers sampleAssigned) \<and>
   ''1'' \<in> set (draftMovers sampleAssigned) \<and>
   ''1'' \<notin> set (draftMovers (toggleMover ''1'' sampleAssigned)) \<and>
   ''2'' \<in> set (draftMovers (toggleMover ''1'' sampleAssigned)) \<and>
   set (draftMovers (toggleMover ''1'' (toggleMover ''1'' sampleAssigned))) = {''1'', ''2''}"
proof -
  have h: "distinct (draftMovers sampleAssigned)" by (simp add: sampleAssigned_simps)
  have m: "''1'' \<in> set (draftMovers sampleAssigned)" "''2'' \<in> set (draftMovers sampleAssigned)"
    "set (draftMovers sampleAssigned) = {''1'', ''2''}"
    by (simp_all add: sampleAssigned_simps)
  from C9_toggle_flips_membership [OF h, of "''1''"] m
  have "''1'' \<notin> set (draftMovers (toggleMover ''1'' sampleAssigned))"
    "''2'' \<in> set (draftMovers (toggleMover ''1'' sampleAssigned))"
    "set (draftMovers (toggleMover ''1'' (toggleMover ''1'' sampleAssigned))) = {''1'', ''2''}"
    by simp_all
  with h m show ?thesis by simp
qed

text \<open>
  Claim C2, on the sample day. The editor is opened on the second block, which has no
  movers; the title is changed and mover 1 is toggled in the draft; the editor is closed
  with the cross. The blocks of the state are the very blocks they were, but the array of
  the second block, which the draft shares, now holds mover 1: the block set is not what
  it was when the editor opened.
\<close>

theorem C2_cancel_keeps_toggled_mover:
  "blocks sampleCancelled = blocks sampleTwo \<and>
   map snd (blockSet sampleTwo) = [Some [], Some []] \<and>
   map snd (blockSet sampleCancelled) = [Some [], Some [''1'']] \<and>
   blockSet sampleCancelled \<noteq> blockSet sampleTwo"
proof -
  have a: "sampleEditor = (fst sampleEditor, sampleTwo)"
    by (simp add: sampleEditor_def)
  have t: "tb_assignedMovers (formState (handleInputChange Title ''Piano'' (fst sampleEditor))) = Some 1"
    by (simp add: handleInputChange_def sampleEditor_simps)
  have es: "snd (applyEdits [InputChange Title ''Piano'', ToggleMover ''1''] sampleEditor) =
      sampleTwo\<lparr>store := (store sampleTwo)\<lparr>cells := (cells (store sampleTwo))(1 := [''1''])\<rparr>\<rparr>"
    by (subst a) (simp add: toggleMover_Some [OF t] sampleTwo_cells)
  have bs: "blocks sampleCancelled = blocks sampleTwo"
    unfolding sampleCancelled_def Let_def cancelButton_def handleClose_state es by simp
  have st: "store sampleCancelled =
      (store sampleTwo)\<lparr>cells := (cells (store sampleTwo))(1 := [''1''])\<rparr>"
    unfolding sampleCancelled_def Let_def cancelButton_def handleClose_state es by simp
  have before: "map snd (blockSet sampleTwo) = [Some [], Some []]"
    by (simp add: blockSet_def assigned_def sampleTwo_state sampleTwo_cells nineToTen_def)
  have after: "map snd (blockSet sampleCancelled) = [Some [], Some [''1'']]"
    by (simp add: blockSet_def assigned_def bs st sampleTwo_state sampleTwo_cells nineToTen_def)
  from before after have "blockSet sampleCancelled \<noteq> blockSet sampleTwo" by auto
  with bs before after show ?thesis by simp
qed

section \<open>Overlap within a lane\<close>

lemma overlaps_sym: "overlaps a b \<longleftrightarrow> overlaps b a"
  by (auto simp add: overlaps_def)

lemma lanesDisjoint_snoc:
  "lanesDisjoint (bs @ [nb]) \<longleftrightarrow>
   lanesDisjoint bs \<and> (\<forall>b\<in>set bs. tb_column b = tb_column nb \<longrightarrow> \<not> overlaps b nb)"
  by (induction bs) (auto simp add: list_all_iff)

lemma hasOverlap_overlaps:
  "hasOverlap bs (tb_start nb) (tb_end nb) col \<longleftrightarrow>
   (\<exists>b\<in>set bs. tb_column b = col \<and> overlaps nb b)"
  by (simp add: hasOverlap_def list_ex_iff overlaps_def)

lemma createBlock_dragging:
  "dragState s = Some d \<Longrightarrow> isDragging d \<Longrightarrow> createBlock env y s = (s, None)"
  by (simp add: createBlock_def)

lemma createBlock_blocks:
  "blocks (fst (createBlock env y s)) = blocks s \<or>
   blocks (fst (createBlock env y s)) = blocks s @ [newBlock env s y (fresh (store s))]"
  by (simp add: createBlock_def alloc_def Let_def)

text \<open>
  Claim C1, as amended. A create keeps the lanes free of overlap whenever a lane is free:
  if no two blocks of the same column overlap, and some lane of \<open>0 .. MAX_COLUMNS - 1\<close>
  holds no block overlapping the interval of the new block (from the time of the click to
  the end that \<^verbatim>\<open>createBlock\<close> computes for it), then after \<^verbatim>\<open>createBlock\<close> no two
  blocks of the same column overlap.
\<close>

theorem C1_create_keeps_lanes_disjoint:
  assumes "lanesDisjoint (blocks s)"
    and "\<exists>c. 0 \<le> c \<and> c < MAX_COLUMNS \<and>
             \<not> hasOverlap (blocks s) (getTimeFromPosition env s y)
                  (setHours (timeZone env) (getTimeFromPosition env s y)
                     (getHours (timeZone env) (getTimeFromPosition env s y) + 1)) c"
  shows "lanesDisjoint (blocks (fst (createBlock env y s)))"
proof -
  let ?nb = "newBlock env s y (fresh (store s))"
  from assms(2) obtain c where c: "0 \<le> c" "c < MAX_COLUMNS"
    "\<not> hasOverlap (blocks s) (tb_start ?nb) (tb_end ?nb) c"
    by (auto simp add: newBlock_fields setHours_succ)
  have col: "tb_column ?nb = findAvailableColumn_from (blocks s) (tb_start ?nb) (tb_end ?nb) 0"
    by (simp add: newBlock_fields findAvailableColumn_def)
  from findAvailableColumn_from_free [OF c]
  have "\<not> hasOverlap (blocks s) (tb_start ?nb) (tb_end ?nb) (tb_column ?nb)"
    unfolding col by blast
  then have "\<forall>b\<in>set (blocks s). tb_column b = tb_column ?nb \<longrightarrow> \<not> overlaps b ?nb"
    unfolding hasOverlap_overlaps using overlaps_sym by blast
  with assms(1) have "lanesDisjoint (blocks s @ [?nb])"
    by (simp add: lanesDisjoint_snoc)
  with assms(1) createBlock_blocks [of env y s] show ?thesis by auto
qed

theorem C1_witness:
  "lanesDisjoint (blocks sampleOne) \<and>
   0 \<le> (1::int) \<and> 1 < MAX_COLUMNS \<and>
   \<not> hasOverlap (blocks sampleOne) (getTimeFromPosition (sampleEnv ''b2'') sampleOne 613)
        (setHours (timeZone (sampleEnv ''b2'')) (getTimeFromPosition (sampleEnv ''b2'') sampleOne 613)
           (getHours (timeZone (sampleEnv ''b2''))
              (getTimeFromPosition (sampleEnv ''b2'') sampleOne 613) + 1)) 1 \<and>
   lanesDisjoint (blocks sampleTwo) \<and> map tb_column (blocks sampleTwo) = [0, 1]"
proof -
  have h1: "lanesDisjoint (blocks sampleOne)" by (simp add: sampleOne_state)
  have f: "0 \<le> (1::int) \<and> 1 < MAX_COLUMNS \<and>
     \<not> hasOverlap (blocks sampleOne) (getTimeFromPosition (sampleEnv ''b2'') sampleOne 613)
        (setHours (timeZone (sampleEnv ''b2'')) (getTimeFromPosition (sampleEnv ''b2'') sampleOne 613)
           (getHours (timeZone (sampleEnv ''b2''))
              (getTimeFromPosition (sampleEnv ''b2'') sampleOne 613) + 1)) 1"
    by (simp add: MAX_COLUMNS_def hasOverlap_def sampleOne_state nineToTen_def)
  then have h2: "\<exists>c. 0 \<le> c \<and> c < MAX_COLUMNS \<and>
     \<not> hasOverlap (blocks sampleOne) (getTimeFromPosition (sampleEnv ''b2'') sampleOne 613)
        (setHours (timeZone (sampleEnv ''b2'')) (getTimeFromPosition (sampleEnv ''b2'') sampleOne 613)
           (getHours (timeZone (sampleEnv ''b2''))
              (getTimeFromPosition (sampleEnv ''b2'') sampleOne 613) + 1)) c"
    by (rule exI)
  from C1_create_keeps_lanes_disjoint [OF h1 h2]
  have "lanesDisjoint (blocks sampleTwo)" by (simp add: sampleTwo_def)
  moreover have "map tb_column (blocks sampleTwo) = [0, 1]"
    by (simp add: sampleTwo_state nineToTen_def)
  ultimately show ?thesis using h1 f by simp
qed

text \<open>
  Claim C1 as stated fails for a move, which does not look at the other blocks. On the
  sample day two clicks at 9:00 put a block into lane 0 and a block into lane 1; pressing
  the second block and moving the pointer one lane width to the left puts it into lane 0
  at the same hour, where it overlaps the first.
\<close>

theorem C1_move_overlaps_in_lane:
  "handleGridInteraction (sampleEnv ''b1'') (MouseEvent 300 613) (initialCalendar sampleNow)
     = Inr sampleOne \<and>
   handleGridInteraction (sampleEnv ''b2'') (MouseEvent 300 613) sampleOne = Inr sampleTwo \<and>
   lanesDisjoint (blocks sampleTwo) \<and>
   handleBlockMouseDown (sampleEnv ''x'') (MouseEvent 400 650) (blocks sampleTwo ! 1) Move sampleTwo
     = Inr (samplePressed Move) \<and>
   (case handleInteractionMove (sampleEnv ''x'') (MouseEvent 190 650) (samplePressed Move) of
      Inl err \<Rightarrow> None
    | Inr s' \<Rightarrow> Some (map tb_column (blocks s'), map tb_start (blocks s'), map tb_end (blocks s'),
                      lanesDisjoint (blocks s')))
     = Some ([0, 0], [1728032400000, 1728032400000], [1728036000000, 1728036000000], False)"
proof -
  have g1: "handleGridInteraction (sampleEnv ''b1'') (MouseEvent 300 613) (initialCalendar sampleNow)
     = Inr sampleOne"
    by (simp add: handleGridInteraction_def firstPoint_def initialCalendar_def sampleOne_def)
  have g2: "handleGridInteraction (sampleEnv ''b2'') (MouseEvent 300 613) sampleOne = Inr sampleTwo"
    by (simp add: handleGridInteraction_def firstPoint_def sampleOne_state sampleTwo_def)
  have d: "lanesDisjoint (blocks sampleTwo)"
    by (simp add: sampleTwo_state nineToTen_def)
  have p: "handleBlockMouseDown (sampleEnv ''x'') (MouseEvent 400 650) (blocks sampleTwo ! 1) Move sampleTwo
     = Inr (samplePressed Move)"
    by (rule samplePressed_reached)
  have f: "find (\<lambda>b. tb_id b = blockId (sampleDragState Move)) (blocks (samplePressed Move))
     = Some (nineToTen ''b2'' ''rgba(16, 185, 129, 0.9)'' 1 1)"
    by (simp add: samplePressed_simps sampleTwo_state sampleDragState_simps nineToTen_def)
  have el: "blockRefs (sampleEnv ''x'') (blockId (sampleDragState Move)) = Some sampleElement"
    by (simp add: sampleDragState_simps sampleEnv_simps)
  have col: "newColumn (sampleDragState Move) (js_sub 190 (initialX (sampleDragState Move))) = 0"
    by (simp add: newColumn_def sampleDragState_simps layout_constants js_arith Math_round_def)
  have top: "js_add (newTop (sampleDragState Move) \<lparr>rect_top = 73, rect_height = 1440\<rparr> sampleElement
      (js_sub 650 (initialY (sampleDragState Move)))) (rect_top \<lparr>rect_top = 73, rect_height = 1440\<rparr>)
      = 613"
    by (simp add: newTop_def sampleDragState_simps sampleElement_def js_arith)
  from handleInteractionMove_move [OF samplePressed_simps(1) sampleEnv_simps(1) dragPoint_mouse f el
      sampleDragState_simps(1)]
  obtain s' where run: "handleInteractionMove (sampleEnv ''x'') (MouseEvent 190 650) (samplePressed Move) = Inr s'"
    and bs: "blocks s' = map (\<lambda>b. if tb_id b = blockId (sampleDragState Move)
                           then moveBlock
                                  (getTimeFromPosition (sampleEnv ''x'') (samplePressed Move)
                                     (js_add
                                        (newTop (sampleDragState Move) \<lparr>rect_top = 73, rect_height = 1440\<rparr>
                                           sampleElement (js_sub 650 (initialY (sampleDragState Move))))
                                        (rect_top \<lparr>rect_top = 73, rect_height = 1440\<rparr>)))
                                  (tb_end (nineToTen ''b2'' ''rgba(16, 185, 129, 0.9)'' 1 1)
                                     - tb_start (nineToTen ''b2'' ''rgba(16, 185, 129, 0.9)'' 1 1))
                                  (newColumn (sampleDragState Move)
                                     (js_sub 190 (initialX (sampleDragState Move)))) b
                           else b) (blocks (samplePressed Move))"
    by blast
  have bs': "blocks s' = [nineToTen ''b1'' ''rgba(59, 130, 246, 0.9)'' 0 0,
                         nineToTen ''b2'' ''rgba(16, 185, 129, 0.9)'' 0 1]"
    unfolding bs col top
    by (simp add: sample_time samplePressed_simps sampleTwo_state sampleDragState_simps
        moveBlock_def nineToTen_def)
  have "(case handleInteractionMove (sampleEnv ''x'') (MouseEvent 190 650) (samplePressed Move) of
      Inl err \<Rightarrow> None
    | Inr s' \<Rightarrow> Some (map tb_column (blocks s'), map tb_start (blocks s'), map tb_end (blocks s'),
                      lanesDisjoint (blocks s')))
     = Some ([0, 0], [1728032400000, 1728032400000], [1728036000000, 1728036000000], False)"
    unfolding run by (simp add: bs' nineToTen_def overlaps_def)
  with g1 g2 d p show ?thesis by simp
qed

section \<open>Invariants of the arrays of movers\<close>

text \<open>
  The two properties of the store that the claims about movers rest on hold of the
  initial state and are kept by the handlers that touch blocks or arrays: every
  reference of a block points to an array that exists, and no array holds an id twice.
  "Done" replaces every block that has the id of the edited block by the draft and
  leaves the other blocks and the store as they are.
\<close>

lemma refsAllocated_initial: "refsAllocated (initialCalendar today)"
  by (simp add: refsAllocated_def initialCalendar_def)

lemma refsAllocated_createBlock:
  "refsAllocated s \<Longrightarrow> refsAllocated (fst (createBlock env y s))"
  by (auto simp add: refsAllocated_iff createBlock_def alloc_def Let_def newBlock_fields
        less_Suc_eq)

lemma refsAllocated_removeMover:
  assumes "refsAllocated s"
  shows "refsAllocated (removeMover m s)"
proof -
  from assms have pre: "\<forall>b\<in>set (blocks s). \<forall>a. tb_assignedMovers b = Some a \<longrightarrow> a < fresh (store s)"
    by (simp add: refsAllocated_iff)
  note props = removeMover_blocks_props [OF pre, of m]
  have "a < fresh (store (removeMover m s))"
    if "b \<in> set (blocks (removeMover m s))" "tb_assignedMovers b = Some a" for b a
  proof -
    from that(1) props obtain i where i: "i < length (blocks s)"
      "b = fst (removeMover_blocks m (blocks s) (store s)) ! i"
      unfolding removeMover_state by (metis in_set_conv_nth)
    with props have "b = (blocks s ! i)\<lparr>tb_assignedMovers := Some (fresh (store s) + i)\<rparr>"
      by blast
    with that(2) have "a = fresh (store s) + i" by simp
    with i(1) props show ?thesis unfolding removeMover_state by simp
  qed
  then show ?thesis by (simp add: refsAllocated_iff)
qed

lemma map_if_keeps:
  "(\<And>b. g (f b) = g b) \<Longrightarrow> map g (map (\<lambda>b. if P b then f b else b) bs) = map g bs"
  by (induction bs) simp_all

lemma handleInteractionMove_refs:
  assumes "handleInteractionMove env e s = Inr s'"
  shows "store s' = store s \<and>
         map tb_assignedMovers (blocks s') = map tb_assignedMovers (blocks s)"
proof -
  have m: "tb_assignedMovers (moveBlock t d c b) = tb_assignedMovers b" for t d c b
    by (simp add: moveBlock_def Let_def)
  have r: "tb_assignedMovers (resizeBlock z d b) = tb_assignedMovers b" for z d b
    by (simp add: resizeBlock_def Let_def)
  have p: "tb_assignedMovers (prepBlock d b) = tb_assignedMovers b" for d b
    by (simp add: prepBlock_def)
  note keeps = map_if_keeps [of tb_assignedMovers, OF m] map_if_keeps [of tb_assignedMovers, OF r]
    map_if_keeps [of tb_assignedMovers, OF p]
  from assms show ?thesis
    unfolding handleInteractionMove_def Let_def
    by (cases e) (auto split: option.splits DragType.splits simp add: keeps m r p)
qed

lemma refsAllocated_map:
  "refsAllocated s \<longleftrightarrow>
   list_all (\<lambda>a. case a of None \<Rightarrow> True | Some r \<Rightarrow> r < fresh (store s))
     (map tb_assignedMovers (blocks s))"
  by (simp add: refsAllocated_def list_all_iff)

lemma refsAllocated_move:
  assumes "refsAllocated s" and "handleInteractionMove env e s = Inr s'"
  shows "refsAllocated s'"
proof -
  from handleInteractionMove_refs [OF assms(2)]
  have a: "store s' = store s"
    and b: "map tb_assignedMovers (blocks s') = map tb_assignedMovers (blocks s)"
    by blast+
  from assms(1) show ?thesis
    unfolding refsAllocated_map a b .
qed

lemma toggleMover_blocks: "blocks (snd (toggleMover m es)) = blocks (snd es)"
  by (simp add: toggleMover_def Let_def split_def)

lemma toggleMover_fresh: "fresh (store (snd es)) \<le> fresh (store (snd (toggleMover m es)))"
  by (cases "tb_assignedMovers (formState (fst es))")
     (simp_all add: toggleMover_def Let_def alloc_def)

lemma refsAllocated_toggleMover:
  "refsAllocated (snd es) \<Longrightarrow> refsAllocated (snd (toggleMover m es))"
  using toggleMover_fresh [of es m]
  by (fastforce simp add: refsAllocated_iff toggleMover_blocks)

lemma distinct_initial: "distinct (cells (store (initialCalendar today)) r)"
  by (simp add: initialCalendar_def)

lemma distinct_createBlock:
  "\<forall>r. distinct (cells (store s) r) \<Longrightarrow> distinct (cells (store (fst (createBlock env y s))) r)"
  by (simp add: createBlock_def alloc_def Let_def)

lemma distinct_removeMover_blocks:
  "\<forall>r. distinct (cells h r) \<Longrightarrow> distinct (cells (snd (removeMover_blocks m bs h)) r)"
proof (induction bs arbitrary: h)
  case Nil
  then show ?case by simp
next
  case (Cons b bs)
  let ?xs = "case tb_assignedMovers b of None \<Rightarrow> [] | Some a \<Rightarrow> filter (\<lambda>x. x \<noteq> m) (cells h a)"
  have "distinct ?xs" using Cons.prems by (cases "tb_assignedMovers b") simp_all
  with Cons.prems have "\<forall>r. distinct (cells (snd (alloc h ?xs)) r)"
    by (simp add: alloc_simps)
  from Cons.IH [OF this] show ?case
    by (simp add: split_def Let_def)
qed

lemma distinct_removeMover:
  "\<forall>r. distinct (cells (store s) r) \<Longrightarrow> distinct (cells (store (removeMover m s)) r)"
  by (simp add: removeMover_state distinct_removeMover_blocks)

lemma distinct_toggleMover:
  assumes "\<forall>r. distinct (cells (store (snd es)) r)"
  shows "distinct (cells (store (snd (toggleMover m es))) r)"
proof (cases "tb_assignedMovers (formState (fst es))")
  case None
  with assms show ?thesis
    by (simp add: toggleMover_def Let_def alloc_def)
next
  case (Some a)
  with assms show ?thesis
    by (simp add: toggleMover_def Let_def indexOf_absent splice1_indexOf)
qed

lemma distinct_draftMovers:
  "\<forall>r. distinct (cells (store (snd es)) r) \<Longrightarrow> distinct (draftMovers es)"
  by (simp add: draftMovers_def split: option.splits)

lemma doneButton_replaces:
  "blocks (doneButton ed s) =
     map (\<lambda>b. if tb_id b = tb_id (ed_block ed) then formState ed else b) (blocks s)"
  "store (doneButton ed s) = store s"
  "editingBlock (doneButton ed s) = None"
  by (simp_all add: doneButton_def handleClose_state)

lemma refsAllocated_deleteBlock: "refsAllocated s \<Longrightarrow> refsAllocated (deleteBlock k s)"
  by (auto simp add: refsAllocated_iff deleteBlock_def Let_def)

lemma refsAllocated_doneButton:
  assumes "refsAllocated s"
    and "\<forall>r. tb_assignedMovers (formState ed) = Some r \<longrightarrow> r < fresh (store s)"
  shows "refsAllocated (doneButton ed s)"
  using assms by (auto simp add: refsAllocated_iff doneButton_replaces)

end
